theory Spec2Isabelle
  imports Complex_Main "HOL-Library.Sublist" "HOL-Library.Char_ord" "HOL-Library.List_Lexorder"
    "HOL-Library.Log_Nat"
begin

section \<open>Python strings\<close>

text \<open>
  Strings are lists of characters. The names this development handles (package names,
  keywords, identifiers) are ASCII; \<open>lower\<close> and \<open>upper\<close> change the letters
  \<open>A\<close> to \<open>Z\<close> and \<open>a\<close> to \<open>z\<close> and leave every other character alone.
\<close>

definition upper_letters :: string where
  "upper_letters = ''ABCDEFGHIJKLMNOPQRSTUVWXYZ''"

definition lower_letters :: string where
  "lower_letters = ''abcdefghijklmnopqrstuvwxyz''"

definition char_lower :: "char \<Rightarrow> char" where
  "char_lower c =
     (case map_of (zip upper_letters lower_letters) c of Some l \<Rightarrow> l | None \<Rightarrow> c)"

definition char_upper :: "char \<Rightarrow> char" where
  "char_upper c =
     (case map_of (zip lower_letters upper_letters) c of Some u \<Rightarrow> u | None \<Rightarrow> c)"

definition lower :: "string \<Rightarrow> string" where
  "lower s = map char_lower s"

definition upper :: "string \<Rightarrow> string" where
  "upper s = map char_upper s"

text \<open>\<open>s.startswith(p)\<close>.\<close>

definition startswith :: "string \<Rightarrow> string \<Rightarrow> bool" where
  "startswith s p = prefix p s"

text \<open>\<open>p in s\<close> for two strings: \<open>p\<close> occurs in \<open>s\<close> as a contiguous run.\<close>

fun str_in :: "string \<Rightarrow> string \<Rightarrow> bool" where
  "str_in p [] = (p = [])"
| "str_in p (c # cs) = (prefix p (c # cs) \<or> str_in p cs)"

text \<open>\<open>s.replace(a, b)\<close> where \<open>a\<close> and \<open>b\<close> are single characters.\<close>

definition replace_char :: "char \<Rightarrow> char \<Rightarrow> string \<Rightarrow> string" where
  "replace_char a b s = map (\<lambda>c. if c = a then b else c) s"

text \<open>\<open>any(k in s for k in ks)\<close>.\<close>

definition any_in :: "string list \<Rightarrow> string \<Rightarrow> bool" where
  "any_in ks s = list_ex (\<lambda>k. str_in k s) ks"

text \<open>\<open>sep.join(xs)\<close>.\<close>

fun join :: "string \<Rightarrow> string list \<Rightarrow> string" where
  "join sep [] = []"
| "join sep [x] = x"
| "join sep (x # y # ys) = x @ sep @ join sep (y # ys)"

section \<open>The Bill of Materials (models/ai\_bom.py)\<close>

text \<open>
  The exceptions that leave the functions modelled here: a validation error of pydantic,
  with the names of the fields that failed, and Python's \<open>TypeError\<close> and
  \<open>OverflowError\<close>.
\<close>

datatype error = ValidationError "string list" | TypeError | OverflowError

text \<open>
  A value of type \<open>Any\<close>, as the free-form dictionaries (\<open>Dict[str, Any]\<close>) hold it.
  The code never inspects such a value itself; it hands it to a conversion, and the value
  is modelled by what each conversion gives:

    \<^item> \<open>float(v)\<close> returns a float (which may be infinite or not a number), raises
      \<open>ValueError\<close> or \<open>TypeError\<close>, or raises \<open>OverflowError\<close> (an integer too
      large for a float);
    \<^item> pydantic validates the value for a field of type \<open>Optional[int]\<close>,
      \<open>Optional[str]\<close> or \<open>List[str]\<close>: it is fit, and becomes a value of the type, or
      it is unfit, and the construction of the record raises;
    \<^item> \<open>list.extend(v)\<close> iterates the value, or raises \<open>TypeError\<close> when it
      cannot be iterated (\<open>None\<close> below); the items then are all strings or not.
\<close>

datatype 'a validated = Unfit | Fit 'a

datatype float_value = Finite rat | Infinity | MinusInfinity | NaN

datatype float_result = FloatValue float_value | FloatRefused | FloatOverflow

record AnyValue =
  float_of :: float_result
  as_optional_int :: "int option validated"
  as_optional_str :: "string option validated"
  as_str_list :: "string list validated"
  iterated :: "string list validated option"

text \<open>A dictionary with string keys: its items in their order, the keys distinct.\<close>

type_synonym py_dict = "(string \<times> AnyValue) list"

datatype ModelType = LLM | VISION | AUDIO | EMBEDDING | FINE_TUNED | CUSTOM

fun ModelType_value :: "ModelType \<Rightarrow> string" where
  "ModelType_value LLM = ''llm''"
| "ModelType_value VISION = ''vision''"
| "ModelType_value AUDIO = ''audio''"
| "ModelType_value EMBEDDING = ''embedding''"
| "ModelType_value FINE_TUNED = ''fine_tuned''"
| "ModelType_value CUSTOM = ''custom''"

datatype DatasetType = TRAINING | VALIDATION | TEST | PRODUCTION

datatype LicenseType = APACHE_2_0 | MIT | GPL_3_0 | PROPRIETARY | UNKNOWN

text \<open>
  The component records keep the fields that the generator writes or the policy engine
  reads; \<open>detection_locations\<close>, \<open>parameters\<close> and \<open>vulnerability_score\<close> are
  display data that no function modelled here reads, and are left out.
\<close>

record ModelComponent =
  model_name :: string
  model_version :: "string option"
  model_type :: ModelType
  provider :: "string option"
  api_endpoint :: "string option"
  model_license :: "LicenseType option"
  model_source_location :: "string option"
  model_detected_in :: "string list"
  usage_context :: "string option"

text \<open>
  A dataset's \<open>metadata\<close> is an optional free-form dictionary (\<open>None\<close> is Python's
  \<open>None\<close>, the empty list the empty dictionary).
\<close>

record DatasetComponent =
  dataset_name :: string
  dataset_type :: DatasetType
  dataset_source_location :: "string option"
  dataset_size :: "int option"
  dataset_license :: "LicenseType option"
  gdpr_compliant :: "bool option"
  dataset_detected_in :: "string list"
  dataset_metadata :: "py_dict option"

record DependencyComponent =
  dep_name :: string
  dep_version :: "string option"
  package_manager :: "string option"
  is_ai_related_flag :: bool
  dep_detected_in :: "string list"

text \<open>
  The document's \<open>metadata\<close> is a free-form dictionary as well: its items, and the
  text that Python's \<open>str\<close> renders the dictionary to.
\<close>

record BomMetadata =
  md_items :: py_dict
  md_str :: string

definition md_keys :: "BomMetadata \<Rightarrow> string list" where
  "md_keys m = map fst (md_items m)"

definition dataset_metadata_keys :: "DatasetComponent \<Rightarrow> string list option" where
  "dataset_metadata_keys ds = map_option (map fst) (dataset_metadata ds)"

record AIBOM =
  spdx_version :: string
  data_license :: string
  spdx_id :: string
  bom_name :: string
  document_namespace :: string
  created :: nat
  creator :: string
  models :: "ModelComponent list"
  datasets :: "DatasetComponent list"
  dependencies :: "DependencyComponent list"
  repository_url :: "string option"
  repository_commit :: "string option"
  scan_timestamp :: nat
  metadata :: BomMetadata

text \<open>
  The two field validators of \<open>AIBOM\<close>. Each gives the name of its field when it
  raises its \<open>ValueError\<close>, and nothing when it accepts the value.
\<close>

definition validate_spdx_id :: "string \<Rightarrow> string option" where
  "validate_spdx_id v =
     (if \<not> startswith v ''SPDXRef-'' then Some ''spdx_id'' else None)"

definition validate_namespace :: "string \<Rightarrow> string option" where
  "validate_namespace v =
     (if \<not> startswith v ''https://'' then Some ''document_namespace'' else None)"

text \<open>
  The keyword arguments of the constructor, \<open>AIBOM(**bom_data)\<close>: the generator passes
  values it has built, the REST interface and the integration pass a file's JSON as it
  is. For each field the argument is missing (\<open>None\<close>), or given with a value that
  pydantic's validation of the field's declared type, nested components included,
  rejects (\<open>Unfit\<close>) or turns into a value of the type (\<open>Fit\<close>). Keys that name no
  field are ignored by the constructor and are not part of the record.
\<close>

record AIBOM_kwargs =
  kw_spdx_version :: "string validated option"
  kw_data_license :: "string validated option"
  kw_spdx_id :: "string validated option"
  kw_name :: "string validated option"
  kw_document_namespace :: "string validated option"
  kw_created :: "nat validated option"
  kw_creator :: "string validated option"
  kw_models :: "ModelComponent list validated option"
  kw_datasets :: "DatasetComponent list validated option"
  kw_dependencies :: "DependencyComponent list validated option"
  kw_repository_url :: "string option validated option"
  kw_repository_commit :: "string option validated option"
  kw_scan_timestamp :: "nat validated option"
  kw_metadata :: "BomMetadata validated option"

text \<open>
  What one field contributes to the validation error: a required field (declared with
  \<open>Field(...)\<close>) fails when it is missing or unfit, a field with a default when it is
  unfit, and a field with a validator when the validator raises on the value of the
  type. A field with a default takes it when the argument is missing.
\<close>

definition required_errors :: "string \<Rightarrow> 'a validated option \<Rightarrow> string list" where
  "required_errors field_name a =
     (case a of None \<Rightarrow> [field_name] | Some Unfit \<Rightarrow> [field_name] | Some (Fit v) \<Rightarrow> [])"

definition default_errors :: "string \<Rightarrow> 'a validated option \<Rightarrow> string list" where
  "default_errors field_name a =
     (case a of None \<Rightarrow> [] | Some Unfit \<Rightarrow> [field_name] | Some (Fit v) \<Rightarrow> [])"

definition validator_errors :: "(string \<Rightarrow> string option) \<Rightarrow> string validated option \<Rightarrow> string list" where
  "validator_errors field_validator a =
     (case a of
        Some (Fit v) \<Rightarrow> (case field_validator v of Some field_name \<Rightarrow> [field_name] | None \<Rightarrow> [])
      | _ \<Rightarrow> [])"

definition value_or :: "'a \<Rightarrow> 'a validated option \<Rightarrow> 'a" where
  "value_or d a = (case a of Some (Fit v) \<Rightarrow> v | _ \<Rightarrow> d)"

text \<open>
  Constructing an \<open>AIBOM\<close>: every field is validated, the two field validators run on
  their fields, and the construction raises one validation error naming every field that
  failed. \<open>now\<close> is the clock's reading, the default of \<open>created\<close> and
  \<open>scan_timestamp\<close>.
\<close>

definition AIBOM_errors :: "AIBOM_kwargs \<Rightarrow> string list" where
  "AIBOM_errors kw =
     default_errors ''spdx_version'' (kw_spdx_version kw) @
     default_errors ''data_license'' (kw_data_license kw) @
     required_errors ''spdx_id'' (kw_spdx_id kw) @
     validator_errors validate_spdx_id (kw_spdx_id kw) @
     required_errors ''name'' (kw_name kw) @
     required_errors ''document_namespace'' (kw_document_namespace kw) @
     validator_errors validate_namespace (kw_document_namespace kw) @
     default_errors ''created'' (kw_created kw) @
     required_errors ''creator'' (kw_creator kw) @
     default_errors ''models'' (kw_models kw) @
     default_errors ''datasets'' (kw_datasets kw) @
     default_errors ''dependencies'' (kw_dependencies kw) @
     default_errors ''repository_url'' (kw_repository_url kw) @
     default_errors ''repository_commit'' (kw_repository_commit kw) @
     default_errors ''scan_timestamp'' (kw_scan_timestamp kw) @
     default_errors ''metadata'' (kw_metadata kw)"

text \<open>
  The two ways in which the arguments are at fault before a field validator runs: a
  required field is missing, or an argument is unfit for its field's type.
\<close>

definition missing_required :: "AIBOM_kwargs \<Rightarrow> bool" where
  "missing_required kw =
     (kw_spdx_id kw = None \<or> kw_name kw = None \<or> kw_document_namespace kw = None \<or>
      kw_creator kw = None)"

definition unfit_argument :: "AIBOM_kwargs \<Rightarrow> bool" where
  "unfit_argument kw =
     (kw_spdx_version kw = Some Unfit \<or> kw_data_license kw = Some Unfit \<or>
      kw_spdx_id kw = Some Unfit \<or> kw_name kw = Some Unfit \<or>
      kw_document_namespace kw = Some Unfit \<or> kw_created kw = Some Unfit \<or>
      kw_creator kw = Some Unfit \<or> kw_models kw = Some Unfit \<or>
      kw_datasets kw = Some Unfit \<or> kw_dependencies kw = Some Unfit \<or>
      kw_repository_url kw = Some Unfit \<or> kw_repository_commit kw = Some Unfit \<or>
      kw_scan_timestamp kw = Some Unfit \<or> kw_metadata kw = Some Unfit)"

definition new_AIBOM :: "nat \<Rightarrow> AIBOM_kwargs \<Rightarrow> error + AIBOM" where
  "new_AIBOM now kw =
     (case AIBOM_errors kw of
        [] \<Rightarrow> Inr \<lparr> spdx_version = value_or ''SPDX-3.0'' (kw_spdx_version kw),
                    data_license = value_or ''CC0-1.0'' (kw_data_license kw),
                    spdx_id = value_or [] (kw_spdx_id kw),
                    bom_name = value_or [] (kw_name kw),
                    document_namespace = value_or [] (kw_document_namespace kw),
                    created = value_or now (kw_created kw),
                    creator = value_or [] (kw_creator kw),
                    models = value_or [] (kw_models kw),
                    datasets = value_or [] (kw_datasets kw),
                    dependencies = value_or [] (kw_dependencies kw),
                    repository_url = value_or None (kw_repository_url kw),
                    repository_commit = value_or None (kw_repository_commit kw),
                    scan_timestamp = value_or now (kw_scan_timestamp kw),
                    metadata = value_or \<lparr> md_items = [], md_str = ''{}'' \<rparr> (kw_metadata kw) \<rparr>
      | errs \<Rightarrow> Inl (ValidationError errs))"

section \<open>Risk management records (compliance/requirements.py)\<close>

datatype RiskLevel = MINIMAL | LIMITED | HIGH | PROHIBITED

fun RiskLevel_value :: "RiskLevel \<Rightarrow> string" where
  "RiskLevel_value MINIMAL = ''minimal''"
| "RiskLevel_value LIMITED = ''limited''"
| "RiskLevel_value HIGH = ''high''"
| "RiskLevel_value PROHIBITED = ''prohibited''"

datatype SystemType = STANDALONE | COMPONENT | PRODUCT

datatype RiskCategory = FUNDAMENTAL_RIGHTS | HEALTH_SAFETY | BIAS_DISCRIMINATION
  | CYBERSECURITY | DATA_PRIVACY | TRANSPARENCY | ENVIRONMENTAL | OTHER

datatype RiskSeverity = SevCRITICAL | SevHIGH | SevMEDIUM | SevLOW | SevNEGLIGIBLE

datatype RiskLikelihood = VERY_HIGH | LikHIGH | LikMEDIUM | LikLOW | VERY_LOW

datatype RiskStatus = IDENTIFIED | ASSESSED | MITIGATED | ACCEPTED | TRANSFERRED | AVOIDED

record Risk =
  risk_id :: string
  risk_title :: string
  risk_description :: string
  risk_category :: RiskCategory
  severity :: RiskSeverity
  likelihood :: RiskLikelihood
  affected_stakeholders :: "string list"
  risk_mitigation_measures :: "string list"
  status :: RiskStatus

fun severity_scores :: "RiskSeverity \<Rightarrow> nat" where
  "severity_scores SevCRITICAL = 5"
| "severity_scores SevHIGH = 4"
| "severity_scores SevMEDIUM = 3"
| "severity_scores SevLOW = 2"
| "severity_scores SevNEGLIGIBLE = 1"

fun likelihood_scores :: "RiskLikelihood \<Rightarrow> nat" where
  "likelihood_scores VERY_HIGH = 5"
| "likelihood_scores LikHIGH = 4"
| "likelihood_scores LikMEDIUM = 3"
| "likelihood_scores LikLOW = 2"
| "likelihood_scores VERY_LOW = 1"

definition risk_score :: "Risk \<Rightarrow> nat" where
  "risk_score r = severity_scores (severity r) * likelihood_scores (likelihood r)"

record RiskManagementSystem =
  continuous_process_established :: bool
  risk_register :: "Risk list"
  risk_assessment_methodology :: "string option"
  residual_risks_acceptable :: bool
  periodic_review_frequency :: "string option"

definition critical_risks_count :: "RiskManagementSystem \<Rightarrow> nat" where
  "critical_risks_count s = length [r \<leftarrow> risk_register s. severity r = SevCRITICAL]"

definition unmitigated_risks_count :: "RiskManagementSystem \<Rightarrow> nat" where
  "unmitigated_risks_count s = length [r \<leftarrow> risk_register s. status r = IDENTIFIED]"

definition RiskManagementSystem_compliant :: "RiskManagementSystem \<Rightarrow> bool" where
  "RiskManagementSystem_compliant s =
     (continuous_process_established s \<and>
      length (risk_register s) > 0 \<and>
      critical_risks_count s = 0 \<and>
      residual_risks_acceptable s)"

text \<open>
  \<open>RiskManagementValidator._check_residual_risks\<close>: the register has no risk that is
  both of critical severity and still in status \<open>IDENTIFIED\<close>.
\<close>

definition check_residual_risks :: "Risk list \<Rightarrow> bool" where
  "check_residual_risks reg =
     (length [r \<leftarrow> reg. severity r = SevCRITICAL \<and> status r = IDENTIFIED] = 0)"

section \<open>The other requirement records (compliance/requirements.py)\<close>

text \<open>
  Of each record the fields are kept that a validator computes and that a \<open>compliant\<close>
  property, the score, the gap list or the diff engine reads. The free-form dictionaries
  of the technical documentation, of which the engine tests only the keys, are modelled
  by their key lists, dictionaries of numbers by association lists, dates by numbers.
  The classification rationale, the incident list
  and \<open>last_security_audit\<close> only feed reports and are left out.
\<close>

record DataQualityMetrics =
  completeness :: "rat option"
  consistency :: "rat option"
  dq_accuracy :: "rat option"
  timeliness :: "rat option"
  overall_score :: "rat option"

record BiasAssessment =
  bias_detected :: bool
  bias_categories :: "string list"
  bias_mitigation_measures :: "string list"

text \<open>
  Constructing a \<open>BiasAssessment\<close> from the list that the validator has collected: the
  field \<open>bias_categories\<close> is declared \<open>List[str]\<close>, so a list with an item that is
  no string is a validation error.
\<close>

definition new_BiasAssessment :: "bool \<Rightarrow> string list validated \<Rightarrow> error + BiasAssessment" where
  "new_BiasAssessment detected categories =
     (case categories of
        Unfit \<Rightarrow> Inl (ValidationError [''bias_categories''])
      | Fit cs \<Rightarrow> Inr \<lparr> bias_detected = detected, bias_categories = cs,
                        bias_mitigation_measures = [] \<rparr>)"

record DataLineage =
  lineage_source :: "string option"
  collection_method :: "string option"
  processing_steps :: "string list"
  transformations :: "string list"
  data_owners :: "string list"

text \<open>
  Constructing a \<open>DataLineage\<close> from a dataset's source and the values found in its
  metadata (\<open>None\<close>: no value found, the field's default is passed): each value is
  validated for its field's type, and the construction raises one validation error
  naming every field that failed.
\<close>

definition validated_optional_str :: "AnyValue option \<Rightarrow> string option validated" where
  "validated_optional_str a = (case a of None \<Rightarrow> Fit None | Some v \<Rightarrow> as_optional_str v)"

definition validated_str_list :: "AnyValue option \<Rightarrow> string list validated" where
  "validated_str_list a = (case a of None \<Rightarrow> Fit [] | Some v \<Rightarrow> as_str_list v)"

definition unfit_errors :: "string \<Rightarrow> 'a validated \<Rightarrow> string list" where
  "unfit_errors field_name a = (case a of Unfit \<Rightarrow> [field_name] | Fit v \<Rightarrow> [])"

definition fit_or :: "'a \<Rightarrow> 'a validated \<Rightarrow> 'a" where
  "fit_or d a = (case a of Unfit \<Rightarrow> d | Fit v \<Rightarrow> v)"

definition new_DataLineage ::
  "string option \<Rightarrow> AnyValue option \<Rightarrow> AnyValue option \<Rightarrow> AnyValue option \<Rightarrow> AnyValue option \<Rightarrow>
   error + DataLineage" where
  "new_DataLineage src method steps transf owners =
     (case unfit_errors ''collection_method'' (validated_optional_str method) @
           unfit_errors ''processing_steps'' (validated_str_list steps) @
           unfit_errors ''transformations'' (validated_str_list transf) @
           unfit_errors ''data_owners'' (validated_str_list owners) of
        [] \<Rightarrow> Inr \<lparr> lineage_source = src,
                    collection_method = fit_or None (validated_optional_str method),
                    processing_steps = fit_or [] (validated_str_list steps),
                    transformations = fit_or [] (validated_str_list transf),
                    data_owners = fit_or [] (validated_str_list owners) \<rparr>
      | errs \<Rightarrow> Inl (ValidationError errs))"

record DataGovernance =
  datasets_documented :: bool
  data_quality_metrics :: "DataQualityMetrics option"
  bias_assessment :: "BiasAssessment option"
  data_lineage :: "DataLineage option"
  data_relevance_documented :: bool
  representativeness_assessed :: bool
  gdpr_compliance_verified :: bool
  data_governance_policies :: "string list"

text \<open>
  Constructing a \<open>DataGovernance\<close>: the policies come from the metadata (\<open>None\<close>: the
  validator's own empty list) and are validated as \<open>List[str]\<close>; the other arguments are
  values that the validator has built.
\<close>

definition new_DataGovernance ::
  "bool \<Rightarrow> DataQualityMetrics option \<Rightarrow> BiasAssessment option \<Rightarrow> DataLineage option \<Rightarrow>
   bool \<Rightarrow> bool \<Rightarrow> bool \<Rightarrow> AnyValue option \<Rightarrow> error + DataGovernance" where
  "new_DataGovernance documented quality bias lineage relevance representativeness gdpr policies =
     (case validated_str_list policies of
        Unfit \<Rightarrow> Inl (ValidationError [''data_governance_policies''])
      | Fit ps \<Rightarrow> Inr \<lparr> datasets_documented = documented,
                        data_quality_metrics = quality,
                        bias_assessment = bias,
                        data_lineage = lineage,
                        data_relevance_documented = relevance,
                        representativeness_assessed = representativeness,
                        gdpr_compliance_verified = gdpr,
                        data_governance_policies = ps \<rparr>)"

definition DataGovernance_compliant :: "DataGovernance \<Rightarrow> bool" where
  "DataGovernance_compliant g =
     (datasets_documented g \<and>
      data_relevance_documented g \<and>
      representativeness_assessed g \<and>
      gdpr_compliance_verified g)"

record LoggingCapability =
  automatic_logging_enabled :: bool
  logging_library_detected :: "string option"
  retention_period_months :: "int option"
  audit_trail_immutable :: bool
  events_logged :: "string list"
  log_format :: "string option"
  access_control_implemented :: bool

text \<open>
  Constructing a \<open>LoggingCapability\<close>: the retention period comes from the metadata
  (\<open>None\<close>: no value found, Python's \<open>None\<close> is passed). The field
  \<open>retention_period_months\<close> is declared \<open>Optional[int]\<close> with \<open>ge=6\<close>, so a value
  that is unfit for \<open>Optional[int]\<close>, or an integer below six, is a validation error.
\<close>

definition validated_retention :: "AnyValue option \<Rightarrow> int option validated" where
  "validated_retention a =
     (case a of
        None \<Rightarrow> Fit None
      | Some v \<Rightarrow>
          (case as_optional_int v of
             Unfit \<Rightarrow> Unfit
           | Fit None \<Rightarrow> Fit None
           | Fit (Some n) \<Rightarrow> if n \<ge> 6 then Fit (Some n) else Unfit))"

definition new_LoggingCapability ::
  "bool \<Rightarrow> string option \<Rightarrow> AnyValue option \<Rightarrow> bool \<Rightarrow> string list \<Rightarrow> string option \<Rightarrow> bool \<Rightarrow>
   error + LoggingCapability" where
  "new_LoggingCapability enabled lib retention immutable events fmt access =
     (case validated_retention retention of
        Unfit \<Rightarrow> Inl (ValidationError [''retention_period_months''])
      | Fit months \<Rightarrow>
          Inr \<lparr> automatic_logging_enabled = enabled, logging_library_detected = lib,
                retention_period_months = months, audit_trail_immutable = immutable,
                events_logged = events, log_format = fmt,
                access_control_implemented = access \<rparr>)"

definition LoggingCapability_compliant :: "LoggingCapability \<Rightarrow> bool" where
  "LoggingCapability_compliant l =
     (let required_events = [''input_data'', ''output_data'', ''decisions'', ''timestamp''];
          has_required_events = list_all (\<lambda>e. e \<in> set (events_logged l)) required_events
      in automatic_logging_enabled l \<and>
         (case retention_period_months l of Some n \<Rightarrow> if n = 0 then 0 else n | None \<Rightarrow> 0) \<ge> 6 \<and>
         audit_trail_immutable l \<and>
         has_required_events)"

datatype AnnexIIICategory = BIOMETRIC | CRITICAL_INFRASTRUCTURE | EDUCATION | EMPLOYMENT
  | ESSENTIAL_SERVICES | LAW_ENFORCEMENT | MIGRATION_ASYLUM | JUSTICE_DEMOCRACY | NONE

record HighRiskClassification =
  is_high_risk :: bool
  annex_iii_categories :: "AnnexIIICategory list"
  keywords_detected :: "string list"
  additional_requirements :: "string list"
  notified_body_required :: bool

datatype GPAIModelType = GPAI_LLM | GPAI_VISION | MULTIMODAL | GPAI_EMBEDDING
  | CODE_GENERATION | GPAI_OTHER

datatype GPAIRole = PROVIDER | DEPLOYER | BOTH

record GPAIModel =
  gpai_name :: string
  gpai_provider :: string
  gpai_model_type :: GPAIModelType
  gpai_version :: "string option"
  gpai_api_endpoint :: "string option"
  estimated_flops :: "rat option"
  systemic_risk_threshold :: bool

record GPAICompliance =
  gpai_models_detected :: "GPAIModel list"
  user_role :: GPAIRole
  technical_doc_provided :: bool
  transparency_info_users :: bool
  ai_generated_content_disclosed :: bool
  systemic_risk_assessment_required :: bool
  systemic_risk_assessment_performed :: bool
  code_of_practice_compliant :: bool
  upstream_provider_compliance_verified :: bool
  intended_use_documented :: bool
  downstream_risk_assessment :: bool

definition compliant_as_deployer :: "GPAICompliance \<Rightarrow> bool" where
  "compliant_as_deployer g =
     (transparency_info_users g \<and>
      ai_generated_content_disclosed g \<and>
      upstream_provider_compliance_verified g \<and>
      intended_use_documented g \<and>
      downstream_risk_assessment g)"

record ProviderObligation =
  obligation_id :: string
  obligation_description :: string
  article_reference :: string
  obligation_compliant :: bool
  evidence :: "string option"

record QualityManagementSystem =
  qms_established :: bool
  compliance_management_strategy :: bool
  design_development_control :: bool
  testing_validation_procedures :: bool
  post_market_monitoring_plan :: bool
  change_management_procedure :: bool
  documentation_maintenance :: bool
  corrective_preventive_actions :: bool
  qms_iso_42001_compliant :: bool

definition QualityManagementSystem_compliant :: "QualityManagementSystem \<Rightarrow> bool" where
  "QualityManagementSystem_compliant q =
     (qms_established q \<and>
      compliance_management_strategy q \<and>
      design_development_control q \<and>
      testing_validation_procedures q \<and>
      post_market_monitoring_plan q \<and>
      change_management_procedure q)"

record ProviderObligations =
  obligations :: "ProviderObligation list"
  qms :: "QualityManagementSystem option"
  conformity_assessment_completed :: bool
  technical_documentation_maintained :: bool
  po_automatic_logging_enabled :: bool
  instructions_for_use_provided :: bool
  corrective_actions_for_nonconformance :: bool

definition compliance_percentage :: "ProviderObligations \<Rightarrow> rat" where
  "compliance_percentage p =
     (if obligations p = [] then 0
      else of_nat (length [ob \<leftarrow> obligations p. obligation_compliant ob]) /
           of_nat (length (obligations p)))"

record EUDatabaseRegistration =
  registration_required :: bool
  registration_completed :: bool
  registration_id :: "string option"
  registration_system_name :: "string option"

definition EUDatabaseRegistration_compliant :: "EUDatabaseRegistration \<Rightarrow> bool" where
  "EUDatabaseRegistration_compliant e =
     (if \<not> registration_required e then True
      else registration_completed e \<and> registration_id e \<noteq> None)"

record PostMarketMonitoring =
  monitoring_plan_established :: bool
  monitoring_frequency :: "string option"
  incident_reporting_procedure :: bool
  incident_contact_designated :: bool
  incident_contact_email :: "string option"
  serious_incidents_count :: int
  user_feedback_collection :: bool
  user_feedback_analysis :: bool
  corrective_actions_procedure :: bool
  preventive_actions_procedure :: bool

definition PostMarketMonitoring_compliant :: "PostMarketMonitoring \<Rightarrow> bool" where
  "PostMarketMonitoring_compliant p =
     (monitoring_plan_established p \<and>
      incident_reporting_procedure p \<and>
      incident_contact_designated p \<and>
      corrective_actions_procedure p)"

record Article8Compliance =
  all_requirements_met :: bool
  conformity_declaration_signed :: bool
  ce_marking_affixed :: bool
  obligations_throughout_lifecycle :: bool

definition Article8Compliance_compliant :: "Article8Compliance \<Rightarrow> bool" where
  "Article8Compliance_compliant a = (all_requirements_met a \<and> conformity_declaration_signed a)"

record AccuracyRequirements =
  metrics_defined :: bool
  acc_performance_metrics :: "(string \<times> float_value) list"
  testing_procedures_documented :: bool
  model_evaluation_performed :: bool
  benchmark_datasets_used :: "string list"

definition AccuracyRequirements_compliant :: "AccuracyRequirements \<Rightarrow> bool" where
  "AccuracyRequirements_compliant a =
     (metrics_defined a \<and>
      testing_procedures_documented a \<and>
      model_evaluation_performed a)"

record RobustnessRequirements =
  error_handling_implemented :: bool
  fallback_mechanisms :: bool
  input_validation :: bool
  adversarial_testing :: bool
  fault_tolerance_measures :: "string list"
  resilience_testing_performed :: bool
  edge_case_handling :: bool

definition RobustnessRequirements_compliant :: "RobustnessRequirements \<Rightarrow> bool" where
  "RobustnessRequirements_compliant r =
     (error_handling_implemented r \<and>
      fallback_mechanisms r \<and>
      input_validation r \<and>
      length (fault_tolerance_measures r) > 0)"

record CybersecurityRequirements =
  security_measures_implemented :: bool
  data_encryption :: bool
  access_controls :: bool
  vulnerability_scanning :: bool
  penetration_testing :: bool
  incident_response_plan :: bool
  security_frameworks :: "string list"
  security_patches_updated :: bool
  authentication_mechanisms :: "string list"

definition CybersecurityRequirements_compliant :: "CybersecurityRequirements \<Rightarrow> bool" where
  "CybersecurityRequirements_compliant c =
     (security_measures_implemented c \<and>
      data_encryption c \<and>
      access_controls c \<and>
      incident_response_plan c \<and>
      length (security_frameworks c) > 0)"

record TechnicalDocumentation =
  system_name :: string
  system_version :: "string option"
  system_type :: SystemType
  doc_risk_level :: RiskLevel
  general_description :: string
  intended_purpose :: string
  context_of_use :: string
  logic_description :: string
  technical_specifications :: "string list"
  software_dependencies :: "string list"
  accuracy_metrics :: "(string \<times> rat) list"
  risk_management :: "string list"
  identified_risks :: "string list"
  doc_mitigation_measures :: "string list"
  human_oversight :: "string list option"
  oversight_measures :: "string list"
  transparency_measures :: "string list"
  doc_created_at :: nat
  doc_updated_at :: nat

record AnnexIVRequirements =
  article_11_compliant :: bool
  article_11_missing_fields :: "string list"
  article_13_compliant :: bool
  article_14_compliant :: bool
  human_oversight_required :: bool
  article_15_compliant :: bool
  accuracy_metrics_provided :: bool
  article_8 :: "Article8Compliance option"
  article_9 :: "RiskManagementSystem option"
  article_9_compliant :: bool
  article_10 :: "DataGovernance option"
  article_10_compliant :: bool
  article_12 :: "LoggingCapability option"
  article_12_compliant :: bool
  article_15_accuracy :: "AccuracyRequirements option"
  article_15_robustness :: "RobustnessRequirements option"
  article_15_cybersecurity :: "CybersecurityRequirements option"
  article_16_17 :: "ProviderObligations option"
  article_16_compliant :: bool
  article_17_compliant :: bool
  annex_iii :: "HighRiskClassification option"
  gpai :: "GPAICompliance option"
  gpai_compliant :: bool
  article_61 :: "EUDatabaseRegistration option"
  article_61_compliant :: bool
  article_72_73 :: "PostMarketMonitoring option"
  article_72_compliant :: bool
  article_73_compliant :: bool
  iso_42001_compliant :: bool
  management_system_established :: bool
  compliance_score :: rat
  critical_gaps :: "string list"
  recommendations :: "string list"

text \<open>The record with every field at its declared default.\<close>

definition AnnexIVRequirements_defaults :: AnnexIVRequirements where
  "AnnexIVRequirements_defaults =
     \<lparr> article_11_compliant = False, article_11_missing_fields = [],
       article_13_compliant = False, article_14_compliant = False,
       human_oversight_required = True, article_15_compliant = False,
       accuracy_metrics_provided = False, article_8 = None, article_9 = None,
       article_9_compliant = False, article_10 = None, article_10_compliant = False,
       article_12 = None, article_12_compliant = False, article_15_accuracy = None,
       article_15_robustness = None, article_15_cybersecurity = None, article_16_17 = None,
       article_16_compliant = False, article_17_compliant = False, annex_iii = None,
       gpai = None, gpai_compliant = False, article_61 = None, article_61_compliant = False,
       article_72_73 = None, article_72_compliant = False, article_73_compliant = False,
       iso_42001_compliant = False, management_system_established = False,
       compliance_score = 0, critical_gaps = [], recommendations = [] \<rparr>"

definition total_articles_checked :: "AnnexIVRequirements \<Rightarrow> nat" where
  "total_articles_checked r = 13"

text \<open>\<open>sum\<close> of a list of booleans: how many are true.\<close>

definition sum_bools :: "bool list \<Rightarrow> nat" where
  "sum_bools bs = length (filter id bs)"

definition articles_compliant_count :: "AnnexIVRequirements \<Rightarrow> nat" where
  "articles_compliant_count r = sum_bools [
      (case article_8 r of Some a \<Rightarrow> Article8Compliance_compliant a | None \<Rightarrow> False),
      article_9_compliant r,
      article_10_compliant r,
      article_11_compliant r,
      article_12_compliant r,
      article_13_compliant r,
      article_14_compliant r,
      article_15_compliant r,
      article_16_compliant r,
      article_17_compliant r,
      article_61_compliant r,
      article_72_compliant r,
      article_73_compliant r]"

record ComplianceResult =
  system_id :: string
  compliant :: bool
  risk_level :: RiskLevel
  technical_documentation :: "TechnicalDocumentation option"
  requirements_check :: AnnexIVRequirements
  evaluated_at :: nat
  evaluated_by :: "string option"
  ai_bom_id :: "string option"

section \<open>The validators (compliance/validators.py)\<close>

text \<open>
  What the validators find out about the code base on disk: whether the path exists,
  whether a file matches one of the test-documentation patterns, whether a README
  mentions tests, evaluation or accuracy, and whether a file matches one of the
  security-documentation patterns. \<open>None\<close> is the engine built without a path.
\<close>

record Codebase =
  cb_exists :: bool
  cb_test_docs :: bool
  cb_readme_mentions_tests :: bool
  cb_security_docs :: bool

text \<open>Truth values of Python: a string, an optional string, a dictionary by its keys.\<close>

definition truthy_opt_str :: "string option \<Rightarrow> bool" where
  "truthy_opt_str s = (case s of Some v \<Rightarrow> v \<noteq> [] | None \<Rightarrow> False)"

definition truthy_opt_keys :: "string list option \<Rightarrow> bool" where
  "truthy_opt_keys d = (case d of Some ks \<Rightarrow> ks \<noteq> [] | None \<Rightarrow> False)"

definition has_key :: "string list option \<Rightarrow> string \<Rightarrow> bool" where
  "has_key d k = (case d of Some ks \<Rightarrow> k \<in> set ks | None \<Rightarrow> False)"

text \<open>\<open>list(set(xs))\<close>: the distinct elements; Python leaves their order open.\<close>

definition list_of_set :: "string list \<Rightarrow> string list" where
  "list_of_set xs = remdups xs"

subsection \<open>Article 10: data governance\<close>

definition check_data_relevance :: "DatasetComponent list \<Rightarrow> bool" where
  "check_data_relevance dss =
     (if dss = [] then False
      else list_ex (\<lambda>ds. truthy_opt_keys (dataset_metadata_keys ds) \<and>
             (has_key (dataset_metadata_keys ds) ''purpose'' \<or>
              has_key (dataset_metadata_keys ds) ''relevance'')) dss)"

definition check_representativeness :: "DatasetComponent list \<Rightarrow> bool" where
  "check_representativeness dss =
     (if dss = [] then False
      else list_ex (\<lambda>ds. truthy_opt_keys (dataset_metadata_keys ds) \<and>
             (has_key (dataset_metadata_keys ds) ''representativeness'' \<or>
              has_key (dataset_metadata_keys ds) ''demographics'')) dss)"

definition check_gdpr_compliance :: "DatasetComponent list \<Rightarrow> bool" where
  "check_gdpr_compliance dss =
     (if dss = [] then True
      else list_all (\<lambda>ds. gdpr_compliant ds \<noteq> None) dss)"

definition dataset_score :: "DatasetComponent \<Rightarrow> rat" where
  "dataset_score ds =
     (if (case dataset_size ds of Some n \<Rightarrow> n \<noteq> 0 | None \<Rightarrow> False) then 1/4 else 0) +
     (if truthy_opt_str (dataset_source_location ds) then 1/4 else 0) +
     (if dataset_license ds \<noteq> None then 1/4 else 0) +
     (if truthy_opt_keys (dataset_metadata_keys ds) then 1/4 else 0)"

definition assess_data_quality :: "DatasetComponent list \<Rightarrow> DataQualityMetrics option" where
  "assess_data_quality dss =
     (if dss = [] then None
      else
        let total_score = sum_list (map dataset_score dss);
            count = length dss;
            overall = (if count > 0 then total_score / of_nat count else 0)
        in Some \<lparr> completeness = Some overall,
                   consistency = Some (if overall > 1/2 then 8/10 else 1/2),
                   dq_accuracy = Some (if overall > 1/2 then 8/10 else 1/2),
                   timeliness = Some (7/10),
                   overall_score = Some overall \<rparr>)"

text \<open>
  \<open>ds.metadata[key]\<close> for a key that the dictionary has, and \<open>ds.metadata.get(key)\<close>
  (with \<open>None\<close> for Python's \<open>None\<close> and for the default passed to \<open>get\<close>).
\<close>

definition dataset_metadata_get :: "DatasetComponent \<Rightarrow> string \<Rightarrow> AnyValue option" where
  "dataset_metadata_get ds key =
     (case dataset_metadata ds of None \<Rightarrow> None | Some items \<Rightarrow> map_of items key)"

text \<open>
  The loop of \<open>_assess_bias\<close> over the datasets, collecting \<open>bias_categories\<close>:
  \<open>extend\<close> raises \<open>TypeError\<close> on a value that cannot be iterated; the items
  collected are all strings (\<open>Fit\<close>) or not (\<open>Unfit\<close>).
\<close>

definition extend_validated :: "string list validated \<Rightarrow> string list validated \<Rightarrow> string list validated" where
  "extend_validated acc items =
     (case acc of
        Unfit \<Rightarrow> Unfit
      | Fit xs \<Rightarrow> (case items of Unfit \<Rightarrow> Unfit | Fit ys \<Rightarrow> Fit (xs @ ys)))"

fun collect_bias_categories ::
  "DatasetComponent list \<Rightarrow> string list validated \<Rightarrow> error + string list validated" where
  "collect_bias_categories [] acc = Inr acc"
| "collect_bias_categories (ds # dss) acc =
     (if truthy_opt_keys (dataset_metadata_keys ds) \<and>
         has_key (dataset_metadata_keys ds) ''bias_categories''
      then (case dataset_metadata_get ds ''bias_categories'' of
              None \<Rightarrow> collect_bias_categories dss acc
            | Some v \<Rightarrow>
                (case iterated v of
                   None \<Rightarrow> Inl TypeError
                 | Some items \<Rightarrow> collect_bias_categories dss (extend_validated acc items)))
      else collect_bias_categories dss acc)"

definition assess_bias :: "DatasetComponent list \<Rightarrow> error + BiasAssessment option" where
  "assess_bias dss =
     (if dss = [] then Inr None
      else
        let detected = list_ex (\<lambda>ds. truthy_opt_keys (dataset_metadata_keys ds) \<and>
                                 has_key (dataset_metadata_keys ds) ''bias'') dss
        in case collect_bias_categories dss (Fit []) of
             Inl e \<Rightarrow> Inl e
           | Inr categories \<Rightarrow> map_sum id Some (new_BiasAssessment detected categories))"

text \<open>
  \<open>_extract_data_lineage\<close> reads the first dataset; an empty or absent metadata
  dictionary gives the defaults.
\<close>

definition extract_data_lineage :: "DatasetComponent list \<Rightarrow> error + DataLineage option" where
  "extract_data_lineage dss =
     (case dss of
        [] \<Rightarrow> Inr None
      | ds # rest \<Rightarrow>
          let from_metadata = (\<lambda>key. if truthy_opt_keys (dataset_metadata_keys ds)
                                      then dataset_metadata_get ds key else None)
          in map_sum id Some
               (new_DataLineage (dataset_source_location ds)
                  (from_metadata ''collection_method'')
                  (from_metadata ''processing_steps'')
                  (from_metadata ''transformations'')
                  (from_metadata ''data_owners'')))"

text \<open>
  \<open>_extract_governance_policies\<close> returns the metadata's value as it is (\<open>None\<close>:
  the key is absent and the function's own empty list is returned).
\<close>

definition extract_governance_policies :: "AIBOM \<Rightarrow> AnyValue option" where
  "extract_governance_policies ai_bom =
     (if md_keys (metadata ai_bom) \<noteq> [] \<and>
         ''data_governance_policies'' \<in> set (md_keys (metadata ai_bom))
      then map_of (md_items (metadata ai_bom)) ''data_governance_policies''
      else None)"

definition DataGovernanceValidator_validate :: "AIBOM \<Rightarrow> Codebase option \<Rightarrow> error + DataGovernance" where
  "DataGovernanceValidator_validate ai_bom codebase_path =
     (let documented = (length (datasets ai_bom) > 0);
          relevance = check_data_relevance (datasets ai_bom);
          representativeness = check_representativeness (datasets ai_bom);
          gdpr = check_gdpr_compliance (datasets ai_bom);
          quality = assess_data_quality (datasets ai_bom)
      in case assess_bias (datasets ai_bom) of
           Inl e \<Rightarrow> Inl e
         | Inr bias \<Rightarrow>
             (case extract_data_lineage (datasets ai_bom) of
                Inl e \<Rightarrow> Inl e
              | Inr lineage \<Rightarrow>
                  new_DataGovernance documented quality bias lineage relevance
                    representativeness gdpr (extract_governance_policies ai_bom)))"

subsection \<open>Article 9: risk management\<close>

text \<open>
  \<open>COMMON_RISKS\<close>, keyed by the model type's value. No model type has the value
  \<open>recruitment\<close>; the table keeps the entry as the source does.
\<close>

definition COMMON_RISKS ::
  "(string \<times> (string \<times> RiskCategory \<times> RiskSeverity \<times> RiskLikelihood) list) list" where
  "COMMON_RISKS = [
     (''llm'', [
        (''Bias and discrimination in generated content'', BIAS_DISCRIMINATION, SevHIGH, LikMEDIUM),
        (''Generation of harmful or illegal content'', FUNDAMENTAL_RIGHTS, SevCRITICAL, LikMEDIUM),
        (''Privacy violation through training data leakage'', DATA_PRIVACY, SevHIGH, LikLOW),
        (''Lack of transparency in decision-making'', TRANSPARENCY, SevMEDIUM, LikHIGH)]),
     (''vision'', [
        (''Biased face recognition across demographics'', BIAS_DISCRIMINATION, SevHIGH, LikHIGH),
        (''Privacy violation through unauthorized surveillance'', FUNDAMENTAL_RIGHTS, SevCRITICAL, LikMEDIUM),
        (''Inaccurate predictions leading to wrong decisions'', HEALTH_SAFETY, SevHIGH, LikMEDIUM)]),
     (''recruitment'', [
        (''Discriminatory candidate filtering'', BIAS_DISCRIMINATION, SevCRITICAL, LikHIGH),
        (''Lack of transparency in hiring decisions'', TRANSPARENCY, SevHIGH, LikHIGH),
        (''Violation of equal opportunity rights'', FUNDAMENTAL_RIGHTS, SevCRITICAL, LikMEDIUM)])]"

text \<open>
  \<open>s.split()\<close>: the maximal runs of characters that are not white space (of the
  ASCII characters, Python counts the blank, the controls 9 to 13 and 28 to 31).
\<close>

definition is_space :: "char \<Rightarrow> bool" where
  "is_space c = (c \<in> set [CHR '' '', CHR 0x09, CHR 0x0A, CHR 0x0B, CHR 0x0C, CHR 0x0D,
                           CHR 0x1C, CHR 0x1D, CHR 0x1E, CHR 0x1F])"

fun split_acc :: "string \<Rightarrow> string \<Rightarrow> string list" where
  "split_acc cur [] = (if cur = [] then [] else [rev cur])"
| "split_acc cur (c # cs) =
     (if is_space c then (if cur = [] then split_acc [] cs else rev cur # split_acc [] cs)
      else split_acc (c # cur) cs)"

definition split :: "string \<Rightarrow> string list" where
  "split s = split_acc [] s"

text \<open>
  The formats \<open>{n:03d}\<close> and \<open>{n:02d}\<close> for the numbers the validators format (all
  below one hundred).
\<close>

definition digit :: "nat \<Rightarrow> char" where
  "digit d = ''0123456789'' ! (d mod 10)"

definition fmt_03d :: "nat \<Rightarrow> string" where
  "fmt_03d n = [digit (n div 100), digit (n div 10), digit n]"

definition fmt_02d :: "nat \<Rightarrow> string" where
  "fmt_02d n = [digit (n div 10), digit n]"

definition check_continuous_process :: "AIBOM \<Rightarrow> bool" where
  "check_continuous_process ai_bom =
     (if md_keys (metadata ai_bom) \<noteq> [] \<and>
         ''risk_management_process'' \<in> set (md_keys (metadata ai_bom))
      then True else False)"

definition common_risk :: "string \<Rightarrow> nat \<times> (string \<times> RiskCategory \<times> RiskSeverity \<times> RiskLikelihood) \<Rightarrow> Risk" where
  "common_risk mtype e =
     (case e of (i, desc, category, sev, lik) \<Rightarrow>
        \<lparr> risk_id = ''RISK-'' @ upper mtype @ ''-'' @ fmt_03d (i + 1),
          risk_title = join '' '' (take 5 (split desc)),
          risk_description = desc,
          risk_category = category,
          severity = sev,
          likelihood = lik,
          affected_stakeholders = [''End users'', ''Data subjects''],
          risk_mitigation_measures = [],
          status = IDENTIFIED \<rparr>)"

definition model_risks :: "ModelComponent \<Rightarrow> Risk list" where
  "model_risks model =
     (let mtype = ModelType_value (model_type model)
      in case map_of COMMON_RISKS mtype of
           Some entries \<Rightarrow> map (common_risk mtype) (enumerate 0 entries)
         | None \<Rightarrow> [])"

definition get_category_specific_risks :: "AnnexIIICategory \<Rightarrow> Risk list" where
  "get_category_specific_risks category =
     (if category = EMPLOYMENT then
        [\<lparr> risk_id = ''RISK-EMP-001'',
           risk_title = ''Discriminatory hiring decisions'',
           risk_description = ''AI system may perpetuate bias in recruitment and hiring processes'',
           risk_category = BIAS_DISCRIMINATION,
           severity = SevCRITICAL,
           likelihood = LikHIGH,
           affected_stakeholders = [''Job candidates'', ''Employees''],
           risk_mitigation_measures = [
             ''Implement bias detection and mitigation'',
             ''Regular fairness audits'',
             ''Human oversight of all hiring decisions''],
           status = IDENTIFIED \<rparr>]
      else if category = BIOMETRIC then
        [\<lparr> risk_id = ''RISK-BIO-001'',
           risk_title = ''Privacy violation through biometric data'',
           risk_description = ''Unauthorized collection or processing of biometric data'',
           risk_category = FUNDAMENTAL_RIGHTS,
           severity = SevCRITICAL,
           likelihood = LikMEDIUM,
           affected_stakeholders = [''Data subjects'', ''Public''],
           risk_mitigation_measures = [
             ''Explicit consent collection'',
             ''Secure biometric data storage'',
             ''Compliance with GDPR Article 9''],
           status = IDENTIFIED \<rparr>]
      else [])"

definition generate_risk_register ::
  "AIBOM \<Rightarrow> RiskLevel \<Rightarrow> AnnexIIICategory option \<Rightarrow> Risk list" where
  "generate_risk_register ai_bom rl annex_iii_category =
     (let risks = concat (map model_risks (models ai_bom));
          risks = (case annex_iii_category of
                     Some c \<Rightarrow> if c \<noteq> NONE then risks @ get_category_specific_risks c else risks
                   | None \<Rightarrow> risks)
      in if rl = HIGH \<and> length risks = 0
         then risks @
           [\<lparr> risk_id = ''RISK-GENERIC-001'',
              risk_title = ''Insufficient risk assessment'',
              risk_description = ''No specific risks identified for high-risk AI system'',
              risk_category = OTHER,
              severity = SevHIGH,
              likelihood = LikHIGH,
              affected_stakeholders = [''All stakeholders''],
              risk_mitigation_measures = [''Perform comprehensive risk assessment''],
              status = IDENTIFIED \<rparr>]
         else risks)"

definition RiskManagementValidator_validate ::
  "AIBOM \<Rightarrow> RiskLevel \<Rightarrow> AnnexIIICategory option \<Rightarrow> RiskManagementSystem" where
  "RiskManagementValidator_validate ai_bom rl annex_iii_category =
     (let reg = generate_risk_register ai_bom rl annex_iii_category
      in \<lparr> continuous_process_established = check_continuous_process ai_bom,
           risk_register = reg,
           risk_assessment_methodology =
             (if reg \<noteq> [] then Some ''AI-assisted risk identification'' else None),
           residual_risks_acceptable = check_residual_risks reg,
           periodic_review_frequency = Some (if rl = HIGH then ''Quarterly'' else ''Annually'') \<rparr>)"

subsection \<open>Article 12: logging\<close>

definition LOGGING_LIBRARIES :: "(string \<times> string list) list" where
  "LOGGING_LIBRARIES = [
     (''python'', [''logging'', ''structlog'', ''loguru'', ''logbook'', ''eliot'']),
     (''javascript'', [''winston'', ''bunyan'', ''pino'', ''log4js'', ''morgan''])]"

definition detect_logging_library :: "AIBOM \<Rightarrow> string option" where
  "detect_logging_library ai_bom =
     (let all_deps = map (\<lambda>dep. lower (dep_name dep)) (dependencies ai_bom)
      in find (\<lambda>lib. lib \<in> set all_deps) (concat (map snd LOGGING_LIBRARIES)))"

text \<open>
  \<open>_detect_retention_period\<close> returns the metadata's value as it is, whatever its
  type (\<open>None\<close>: the key is absent and Python's \<open>None\<close> is returned).
\<close>

definition detect_retention_period :: "AIBOM \<Rightarrow> Codebase option \<Rightarrow> AnyValue option" where
  "detect_retention_period ai_bom codebase_path =
     (if md_keys (metadata ai_bom) \<noteq> [] \<and>
         ''log_retention_months'' \<in> set (md_keys (metadata ai_bom))
      then map_of (md_items (metadata ai_bom)) ''log_retention_months''
      else None)"

definition detect_logged_events :: "AIBOM \<Rightarrow> Codebase option \<Rightarrow> string list" where
  "detect_logged_events ai_bom codebase_path =
     (if dependencies ai_bom \<noteq> [] \<and>
         list_ex (\<lambda>dep. lower (dep_name dep) \<in>
                    set [''logging'', ''winston'', ''log4js'', ''structlog'', ''loguru''])
                 (dependencies ai_bom)
      then [''timestamp'', ''log_level'', ''message'']
      else [])"

definition check_audit_trail :: "AIBOM \<Rightarrow> bool" where
  "check_audit_trail ai_bom =
     list_ex (\<lambda>dep. lower (dep_name dep) \<in>
                set [''audit-log'', ''immutable-log'', ''blockchain-logger''])
             (dependencies ai_bom)"

definition LoggingValidator_validate :: "AIBOM \<Rightarrow> Codebase option \<Rightarrow> error + LoggingCapability" where
  "LoggingValidator_validate ai_bom codebase_path =
     (let logging_library = detect_logging_library ai_bom
      in new_LoggingCapability
           (logging_library \<noteq> None)
           logging_library
           (detect_retention_period ai_bom codebase_path)
           (check_audit_trail ai_bom)
           (detect_logged_events ai_bom codebase_path)
           (Some (if (case logging_library of
                        Some l \<Rightarrow> l \<in> set [''winston'', ''pino'', ''structlog'']
                      | None \<Rightarrow> False)
                  then ''JSON'' else ''Text''))
           False)"

subsection \<open>Annex III: high-risk classification\<close>

definition CATEGORY_KEYWORDS :: "(AnnexIIICategory \<times> string list) list" where
  "CATEGORY_KEYWORDS = [
     (BIOMETRIC, [
        ''biometric'', ''face recognition'', ''facial recognition'', ''fingerprint'',
        ''iris recognition'', ''voice recognition'', ''gait recognition'', ''emotion recognition'']),
     (CRITICAL_INFRASTRUCTURE, [
        ''infrastructure'', ''water supply'', ''gas supply'', ''electricity'', ''heating'',
        ''critical infrastructure'', ''utility management'', ''power grid'']),
     (EDUCATION, [
        ''education'', ''school'', ''university'', ''student'', ''exam'', ''grading'',
        ''educational'', ''learning management'', ''assessment'', ''admission'']),
     (EMPLOYMENT, [
        ''recruitment'', ''hiring'', ''hr'', ''human resources'', ''employee'', ''job'',
        ''resume'', ''cv'', ''candidate'', ''interview'', ''performance evaluation'',
        ''workforce management'', ''talent acquisition'']),
     (ESSENTIAL_SERVICES, [
        ''credit'', ''loan'', ''creditworthiness'', ''credit scoring'', ''healthcare'',
        ''medical'', ''diagnosis'', ''treatment'', ''emergency services'', ''benefit'',
        ''social security'', ''welfare'']),
     (LAW_ENFORCEMENT, [
        ''law enforcement'', ''police'', ''criminal'', ''crime'', ''investigation'',
        ''surveillance'', ''suspect'', ''evidence'', ''forensic'']),
     (MIGRATION_ASYLUM, [
        ''migration'', ''asylum'', ''refugee'', ''border control'', ''visa'',
        ''immigration'', ''deportation'', ''travel document'']),
     (JUSTICE_DEMOCRACY, [
        ''justice'', ''court'', ''judge'', ''legal'', ''judiciary'', ''democratic'',
        ''election'', ''voting'', ''democracy'', ''legal decision''])]"

definition text_to_analyze :: "AIBOM \<Rightarrow> string list" where
  "text_to_analyze ai_bom =
     [lower (bom_name ai_bom),
      (if truthy_opt_str (repository_url ai_bom) then lower (the (repository_url ai_bom)) else [])]
     @ map (\<lambda>model. lower (the (usage_context model)))
         (filter (\<lambda>model. truthy_opt_str (usage_context model)) (models ai_bom))
     @ (if md_keys (metadata ai_bom) \<noteq> [] then [lower (md_str (metadata ai_bom))] else [])"

text \<open>
  The double loop over categories and keywords: a category enters the list at its
  first keyword found, a keyword every time it is found.
\<close>

definition detected_categories_of :: "string \<Rightarrow> AnnexIIICategory list" where
  "detected_categories_of combined_text =
     map fst (filter (\<lambda>(category, keywords). any_in keywords combined_text)
                CATEGORY_KEYWORDS)"

definition keywords_detected_of :: "string \<Rightarrow> string list" where
  "keywords_detected_of combined_text =
     concat (map (\<lambda>(category, keywords). filter (\<lambda>keyword. str_in keyword combined_text) keywords)
               CATEGORY_KEYWORDS)"

definition get_additional_requirements :: "AnnexIIICategory list \<Rightarrow> string list" where
  "get_additional_requirements categories =
     (if EMPLOYMENT \<in> set categories then [
        ''Article 26: Obligations for employers deploying AI systems'',
        ''GDPR Article 22: Right to human review of automated decisions'',
        ''Transparency requirements for candidates/employees''] else [])
     @ (if BIOMETRIC \<in> set categories then [
        ''GDPR Article 9: Special category data processing'',
        ''Explicit consent required'',
        ''Enhanced security measures for biometric data''] else [])
     @ (if ESSENTIAL_SERVICES \<in> set categories then [
        ''Enhanced transparency to affected persons'',
        ''Right to explanation of decisions'',
        ''Periodic validation of accuracy''] else [])"

definition classify :: "AIBOM \<Rightarrow> Codebase option \<Rightarrow> HighRiskClassification" where
  "classify ai_bom codebase_path =
     (let combined_text = join '' '' (text_to_analyze ai_bom);
          detected_categories = detected_categories_of combined_text
      in \<lparr> is_high_risk = (length detected_categories > 0),
           annex_iii_categories = detected_categories,
           keywords_detected = keywords_detected_of combined_text,
           additional_requirements = get_additional_requirements detected_categories,
           notified_body_required = (BIOMETRIC \<in> set detected_categories) \<rparr>)"

subsection \<open>Annex X to XIII: general-purpose models\<close>

definition GPAI_PROVIDERS :: "(string \<times> string list) list" where
  "GPAI_PROVIDERS = [
     (''openai'', [''gpt-3.5'', ''gpt-4'', ''gpt-4-turbo'', ''text-embedding'', ''dall-e'']),
     (''anthropic'', [''claude-3'', ''claude-2'', ''claude-instant'']),
     (''google'', [''gemini'', ''palm'', ''bard'']),
     (''meta'', [''llama'', ''llama-2'', ''llama-3'']),
     (''mistral'', [''mistral'', ''mixtral'']),
     (''cohere'', [''command'', ''embed''])]"

text \<open>
  The loop over the provider table for one model. A provider whose name occurs in the
  model's provider ends the loop; a pattern found in the model's name ends only the
  inner loop over that provider's patterns, so a later provider can overwrite the
  detected one.
\<close>

fun scan_providers ::
  "string option \<Rightarrow> string \<Rightarrow> (string \<times> string list) list \<Rightarrow> bool \<times> string option \<Rightarrow>
   bool \<times> string option" where
  "scan_providers prov_field mname [] st = st"
| "scan_providers prov_field mname ((prov, model_patterns) # rest) st =
     (if truthy_opt_str prov_field \<and> str_in prov (lower (the prov_field))
      then (True, Some prov)
      else scan_providers prov_field mname rest
             (if any_in model_patterns mname then (True, Some prov) else st))"

definition determine_gpai_type :: "string \<Rightarrow> GPAIModelType" where
  "determine_gpai_type mname =
     (if any_in [''gpt'', ''claude'', ''llama'', ''palm'', ''gemini'', ''command''] mname then GPAI_LLM
      else if any_in [''dall-e'', ''stable-diffusion'', ''midjourney''] mname then GPAI_VISION
      else if any_in [''whisper'', ''audio''] mname then GPAI_VISION
      else if any_in [''embed'', ''embedding''] mname then GPAI_EMBEDDING
      else if str_in ''codex'' mname \<or> str_in ''code'' mname then CODE_GENERATION
      else GPAI_OTHER)"

definition estimate_systemic_risk :: "string \<Rightarrow> string option \<Rightarrow> bool" where
  "estimate_systemic_risk mname prov =
     any_in [''gpt-4'', ''claude-3-opus'', ''gemini-ultra'', ''llama-3-405b''] mname"

text \<open>\<open>a or b or c\<close> on optional strings, the last a plain string.\<close>

definition or_else :: "string option \<Rightarrow> string option \<Rightarrow> string \<Rightarrow> string" where
  "or_else a b c =
     (if truthy_opt_str a then the a else if truthy_opt_str b then the b else c)"

definition detect_gpai_model :: "ModelComponent \<Rightarrow> GPAIModel list" where
  "detect_gpai_model model =
     (let mname = lower (model_name model);
          (is_gpai, detected_provider) =
             scan_providers (provider model) mname GPAI_PROVIDERS (False, None)
      in if is_gpai
         then [\<lparr> gpai_name = model_name model,
                  gpai_provider = or_else detected_provider (provider model) ''Unknown'',
                  gpai_model_type = determine_gpai_type mname,
                  gpai_version = model_version model,
                  gpai_api_endpoint = api_endpoint model,
                  estimated_flops = None,
                  systemic_risk_threshold = estimate_systemic_risk mname detected_provider \<rparr>]
         else [])"

definition detect_gpai_models :: "AIBOM \<Rightarrow> GPAIModel list" where
  "detect_gpai_models ai_bom = concat (map detect_gpai_model (models ai_bom))"

definition GPAIValidator_validate :: "AIBOM \<Rightarrow> GPAICompliance" where
  "GPAIValidator_validate ai_bom =
     (let gpai_models = detect_gpai_models ai_bom
      in \<lparr> gpai_models_detected = gpai_models,
           user_role = (if gpai_models \<noteq> [] then DEPLOYER else PROVIDER),
           technical_doc_provided = False,
           transparency_info_users = False,
           ai_generated_content_disclosed = False,
           systemic_risk_assessment_required = list_ex systemic_risk_threshold gpai_models,
           systemic_risk_assessment_performed = False,
           code_of_practice_compliant = False,
           upstream_provider_compliance_verified = False,
           intended_use_documented = False,
           downstream_risk_assessment = False \<rparr>)"

subsection \<open>Articles 16 and 17, 61, 72 and 73, 8\<close>

definition ARTICLE_16_OBLIGATIONS :: "(string \<times> string) list" where
  "ARTICLE_16_OBLIGATIONS = [
     (''Art. 16(a)'', ''Conformity assessment completed''),
     (''Art. 16(b)'', ''Technical documentation maintained and updated''),
     (''Art. 16(c)'', ''Automatic logging enabled for high-risk AI systems''),
     (''Art. 16(d)'', ''Instructions for use provided to deployers''),
     (''Art. 16(e)'', ''Corrective actions taken for non-conformance''),
     (''Art. 16(f)'', ''Cooperation with authorities''),
     (''Art. 16(g)'', ''CE marking affixed to high-risk AI system''),
     (''Art. 16(h)'', ''Registration in EU database (if high-risk)'')]"

definition ProviderObligationsValidator_validate :: "AIBOM \<Rightarrow> RiskLevel \<Rightarrow> ProviderObligations" where
  "ProviderObligationsValidator_validate ai_bom rl =
     \<lparr> obligations =
         map (\<lambda>(i, ref, desc).
                \<lparr> obligation_id = ''OBL-'' @ fmt_02d (i + 1),
                  obligation_description = desc,
                  article_reference = ref,
                  obligation_compliant = False,
                  evidence = None \<rparr>)
             (enumerate 0 ARTICLE_16_OBLIGATIONS),
       qms = Some \<lparr> qms_established = False,
                    compliance_management_strategy = False,
                    design_development_control = False,
                    testing_validation_procedures = False,
                    post_market_monitoring_plan = False,
                    change_management_procedure = False,
                    documentation_maintenance = False,
                    corrective_preventive_actions = False,
                    qms_iso_42001_compliant = False \<rparr>,
       conformity_assessment_completed = False,
       technical_documentation_maintained = False,
       po_automatic_logging_enabled = False,
       instructions_for_use_provided = False,
       corrective_actions_for_nonconformance = False \<rparr>"

definition EUDatabaseValidator_validate :: "RiskLevel \<Rightarrow> string \<Rightarrow> EUDatabaseRegistration" where
  "EUDatabaseValidator_validate rl sys_name =
     \<lparr> registration_required = (rl = HIGH),
       registration_completed = False,
       registration_id = None,
       registration_system_name = Some sys_name \<rparr>"

definition PostMarketMonitoringValidator_validate :: "RiskLevel \<Rightarrow> PostMarketMonitoring" where
  "PostMarketMonitoringValidator_validate rl =
     (let monitoring_required = (rl = HIGH)
      in \<lparr> monitoring_plan_established = False,
           monitoring_frequency = Some (if monitoring_required then ''Monthly'' else ''Quarterly''),
           incident_reporting_procedure = False,
           incident_contact_designated = False,
           incident_contact_email = None,
           serious_incidents_count = 0,
           user_feedback_collection = False,
           user_feedback_analysis = False,
           corrective_actions_procedure = False,
           preventive_actions_procedure = False \<rparr>)"

definition Article8Validator_validate :: Article8Compliance where
  "Article8Validator_validate =
     \<lparr> all_requirements_met = False,
       conformity_declaration_signed = False,
       ce_marking_affixed = False,
       obligations_throughout_lifecycle = False \<rparr>"

subsection \<open>Article 15: accuracy, robustness, cybersecurity\<close>

text \<open>
  The checks below look for library names inside dependency names:
  \<open>any(lib in dep_name for lib in libs)\<close> for some dependency, with \<open>dep_name\<close> the
  lower-cased name.
\<close>

definition some_dep_mentions :: "string list \<Rightarrow> AIBOM \<Rightarrow> bool" where
  "some_dep_mentions libs ai_bom =
     list_ex (\<lambda>dep. any_in libs (lower (dep_name dep))) (dependencies ai_bom)"

definition TESTING_FRAMEWORKS :: "(string \<times> string list) list" where
  "TESTING_FRAMEWORKS = [
     (''python'', [''pytest'', ''unittest'', ''nose'', ''hypothesis'', ''sklearn.metrics'',
                   ''tensorflow.keras.metrics'']),
     (''javascript'', [''jest'', ''mocha'', ''chai'', ''jasmine''])]"

definition BENCHMARK_DATASETS :: "string list" where
  "BENCHMARK_DATASETS = [
     ''MNIST'', ''CIFAR'', ''ImageNet'', ''COCO'', ''GLUE'', ''SuperGLUE'',
     ''SQuAD'', ''CoNLL'', ''IMDB'', ''WikiText'', ''Common Crawl'']"

definition detect_testing_frameworks :: "AIBOM \<Rightarrow> bool" where
  "detect_testing_frameworks ai_bom =
     list_ex (\<lambda>dep. list_ex (\<lambda>(lang, frameworks). any_in frameworks (lower (dep_name dep)))
                       TESTING_FRAMEWORKS)
             (dependencies ai_bom)"

text \<open>
  The loop of \<open>_extract_performance_metrics\<close> over the metadata's items: under a key
  that mentions a metric, \<open>float(value)\<close> gives the metric; its \<open>ValueError\<close> and
  \<open>TypeError\<close> are caught and the item is skipped; its \<open>OverflowError\<close> is not.
\<close>

fun collect_metrics :: "string list \<Rightarrow> py_dict \<Rightarrow> error + (string \<times> float_value) list" where
  "collect_metrics metric_keywords [] = Inr []"
| "collect_metrics metric_keywords ((key, v) # items) =
     (if any_in metric_keywords (lower key)
      then (case float_of v of
              FloatOverflow \<Rightarrow> Inl OverflowError
            | FloatRefused \<Rightarrow> collect_metrics metric_keywords items
            | FloatValue x \<Rightarrow> map_sum id (\<lambda>metrics. (key, x) # metrics)
                                (collect_metrics metric_keywords items))
      else collect_metrics metric_keywords items)"

definition extract_performance_metrics ::
  "AIBOM \<Rightarrow> Codebase option \<Rightarrow> error + (string \<times> float_value) list" where
  "extract_performance_metrics ai_bom codebase_path =
     (let metric_keywords = [''accuracy'', ''precision'', ''recall'', ''f1'', ''auc'', ''roc'',
                             ''mse'', ''mae'', ''rmse'']
      in if md_keys (metadata ai_bom) \<noteq> []
         then collect_metrics metric_keywords (md_items (metadata ai_bom))
         else Inr [])"

definition detect_benchmark_datasets :: "AIBOM \<Rightarrow> string list" where
  "detect_benchmark_datasets ai_bom =
     list_of_set (concat (map (\<lambda>dataset.
        filter (\<lambda>benchmark. str_in benchmark (upper (dataset_name dataset))) BENCHMARK_DATASETS)
        (datasets ai_bom)))"

definition check_testing_documentation :: "Codebase option \<Rightarrow> bool" where
  "check_testing_documentation codebase_path =
     (case codebase_path of
        None \<Rightarrow> False
      | Some cb \<Rightarrow>
          if \<not> cb_exists cb then False
          else if cb_test_docs cb then True
          else if cb_readme_mentions_tests cb then True
          else False)"

definition Article15AccuracyValidator_validate ::
  "AIBOM \<Rightarrow> Codebase option \<Rightarrow> error + AccuracyRequirements" where
  "Article15AccuracyValidator_validate ai_bom codebase_path =
     (let testing_detected = detect_testing_frameworks ai_bom
      in case extract_performance_metrics ai_bom codebase_path of
           Inl e \<Rightarrow> Inl e
         | Inr performance_metrics \<Rightarrow>
             Inr \<lparr> metrics_defined = (length performance_metrics > 0 \<or> testing_detected),
                   acc_performance_metrics = performance_metrics,
                   testing_procedures_documented = check_testing_documentation codebase_path,
                   model_evaluation_performed = (testing_detected \<and> length performance_metrics > 0),
                   benchmark_datasets_used = detect_benchmark_datasets ai_bom \<rparr>)"

definition ERROR_HANDLING_KEYWORDS :: "string list" where
  "ERROR_HANDLING_KEYWORDS =
     [''try'', ''except'', ''catch'', ''error'', ''exception'', ''fallback'', ''retry'']"

definition FAULT_TOLERANCE_LIBS :: "(string \<times> string list) list" where
  "FAULT_TOLERANCE_LIBS = [
     (''python'', [''tenacity'', ''backoff'', ''retry'', ''circuit-breaker'', ''resilience4j'']),
     (''javascript'', [''retry'', ''async-retry'', ''p-retry'', ''opossum''])]"

definition detect_fault_tolerance :: "AIBOM \<Rightarrow> string list" where
  "detect_fault_tolerance ai_bom =
     list_of_set (concat (map (\<lambda>dep.
        concat (map (\<lambda>(lang, libs).
          map (\<lambda>lib. lib @ '' ('' @ lang @ '')'')
            (filter (\<lambda>lib. str_in lib (lower (dep_name dep))) libs))
          FAULT_TOLERANCE_LIBS))
        (dependencies ai_bom)))"

definition Article15RobustnessValidator_validate ::
  "AIBOM \<Rightarrow> Codebase option \<Rightarrow> RobustnessRequirements" where
  "Article15RobustnessValidator_validate ai_bom codebase_path =
     (let measures = detect_fault_tolerance ai_bom;
          adversarial = some_dep_mentions
             [''cleverhans'', ''foolbox'', ''adversarial-robustness-toolbox'', ''art''] ai_bom;
          resilience = some_dep_mentions
             [''chaos'', ''toxiproxy'', ''gremlin'', ''simian-army'', ''pytest-stress''] ai_bom
      in \<lparr> error_handling_implemented = some_dep_mentions ERROR_HANDLING_KEYWORDS ai_bom,
           fallback_mechanisms = (length measures > 0),
           input_validation = some_dep_mentions
             [''pydantic'', ''marshmallow'', ''cerberus'', ''voluptuous'', ''joi'', ''ajv'', ''yup'']
             ai_bom,
           adversarial_testing = adversarial,
           fault_tolerance_measures = measures,
           resilience_testing_performed = resilience,
           edge_case_handling = (resilience \<or> adversarial) \<rparr>)"

definition SECURITY_FRAMEWORKS :: "string list" where
  "SECURITY_FRAMEWORKS = [''ISO 27001'', ''NIST CSF'', ''SOC2'', ''PCI-DSS'', ''GDPR'', ''HIPAA'']"

definition ENCRYPTION_LIBS :: "(string \<times> string list) list" where
  "ENCRYPTION_LIBS = [
     (''python'', [''cryptography'', ''pycryptodome'', ''nacl'', ''hashlib'']),
     (''javascript'', [''crypto'', ''bcrypt'', ''crypto-js'', ''node-forge''])]"

definition AUTH_LIBS :: "(string \<times> string list) list" where
  "AUTH_LIBS = [
     (''python'', [''flask-login'', ''django-auth'', ''authlib'', ''oauthlib'', ''pyjwt'']),
     (''javascript'', [''passport'', ''jsonwebtoken'', ''oauth'', ''auth0''])]"

definition SECURITY_SCANNING_LIBS :: "(string \<times> string list) list" where
  "SECURITY_SCANNING_LIBS = [
     (''python'', [''bandit'', ''safety'', ''snyk'', ''semgrep'']),
     (''javascript'', [''eslint-plugin-security'', ''npm-audit'', ''snyk''])]"

text \<open>A dependency whose lower-cased name contains a library of some language's list.\<close>

definition some_dep_in_table :: "(string \<times> string list) list \<Rightarrow> AIBOM \<Rightarrow> bool" where
  "some_dep_in_table table ai_bom =
     list_ex (\<lambda>dep. list_ex (\<lambda>(lang, libs). any_in libs (lower (dep_name dep))) table)
             (dependencies ai_bom)"

text \<open>\<open>s.replace(" ", "")\<close>.\<close>

definition remove_spaces :: "string \<Rightarrow> string" where
  "remove_spaces s = filter (\<lambda>c. c \<noteq> CHR '' '') s"

definition detect_security_frameworks :: "AIBOM \<Rightarrow> Codebase option \<Rightarrow> string list" where
  "detect_security_frameworks ai_bom codebase_path =
     (if md_keys (metadata ai_bom) \<noteq> []
      then let metadata_str = upper (md_str (metadata ai_bom))
           in filter (\<lambda>framework. str_in (upper (remove_spaces framework))
                                         (remove_spaces metadata_str))
                SECURITY_FRAMEWORKS
      else [])"

definition check_incident_response_docs :: "Codebase option \<Rightarrow> bool" where
  "check_incident_response_docs codebase_path =
     (case codebase_path of
        None \<Rightarrow> False
      | Some cb \<Rightarrow>
          if \<not> cb_exists cb then False
          else if cb_security_docs cb then True
          else False)"

definition AUTH_KEYWORDS :: "(string \<times> string) list" where
  "AUTH_KEYWORDS = [
     (''jwt'', ''JWT''), (''oauth'', ''OAuth''), (''saml'', ''SAML''),
     (''mfa'', ''Multi-Factor Auth''), (''2fa'', ''Two-Factor Auth''),
     (''ldap'', ''LDAP''), (''kerberos'', ''Kerberos'')]"

definition detect_auth_mechanisms :: "AIBOM \<Rightarrow> string list" where
  "detect_auth_mechanisms ai_bom =
     list_of_set (concat (map (\<lambda>dep.
        map snd (filter (\<lambda>(keyword, mechanism). str_in keyword (lower (dep_name dep)))
                   AUTH_KEYWORDS))
        (dependencies ai_bom)))"

definition Article15CybersecurityValidator_validate ::
  "AIBOM \<Rightarrow> Codebase option \<Rightarrow> CybersecurityRequirements" where
  "Article15CybersecurityValidator_validate ai_bom codebase_path =
     (let encryption = some_dep_in_table ENCRYPTION_LIBS ai_bom;
          access = some_dep_in_table AUTH_LIBS ai_bom;
          scanning = some_dep_in_table SECURITY_SCANNING_LIBS ai_bom
      in \<lparr> security_measures_implemented = (encryption \<or> access \<or> scanning),
           data_encryption = encryption,
           access_controls = access,
           vulnerability_scanning = scanning,
           penetration_testing = some_dep_mentions
             [''metasploit'', ''burp'', ''zap'', ''nmap'', ''nessus'', ''w3af''] ai_bom,
           incident_response_plan = check_incident_response_docs codebase_path,
           security_frameworks = detect_security_frameworks ai_bom codebase_path,
           security_patches_updated = some_dep_in_table SECURITY_SCANNING_LIBS ai_bom,
           authentication_mechanisms = detect_auth_mechanisms ai_bom \<rparr>)"

section \<open>The policy engine (compliance/policy\_engine.py)\<close>

text \<open>
  \<open>s.replace(old, new)\<close> for a non-empty \<open>old\<close>: every occurrence, left to right,
  without overlap.
\<close>

function replace_all :: "string \<Rightarrow> string \<Rightarrow> string \<Rightarrow> string" where
  "replace_all old new [] = []"
| "replace_all old new (c # cs) =
     (if old \<noteq> [] \<and> prefix old (c # cs)
      then new @ replace_all old new (drop (length old) (c # cs))
      else c # replace_all old new cs)"
  by pat_completeness auto
termination
  by (relation "measure (\<lambda>(old, new, s). length s)") (auto simp: Suc_le_eq)

definition required_fields_article_11 :: "string list" where
  "required_fields_article_11 = [
     ''general_description'', ''intended_purpose'', ''context_of_use'', ''logic_description'',
     ''technical_specifications'', ''accuracy_metrics'', ''risk_management'']"

text \<open>
  A required field is missing when its value is \<open>None\<close> or an empty dictionary or
  list. The four text fields hold a string, so they are never missing.
\<close>

definition field_is_missing :: "TechnicalDocumentation \<Rightarrow> string \<Rightarrow> bool" where
  "field_is_missing documentation field =
     (if field = ''technical_specifications'' then length (technical_specifications documentation) = 0
      else if field = ''accuracy_metrics'' then length (accuracy_metrics documentation) = 0
      else if field = ''risk_management'' then length (risk_management documentation) = 0
      else False)"

definition generate_recommendations ::
  "TechnicalDocumentation \<Rightarrow> bool \<Rightarrow> bool \<Rightarrow> bool \<Rightarrow> string list" where
  "generate_recommendations documentation article_11_ok article_14_ok article_15_ok =
     (if \<not> article_11_ok
      then [''Complete all required fields in technical documentation (Article 11)''] else [])
     @ (if \<not> article_14_ok
      then [''Implement human oversight plan with concrete measures (Article 14)''] else [])
     @ (if \<not> article_15_ok
      then [''Provide quantitative metrics for accuracy, robustness and cybersecurity (Article 15)'']
      else [])
     @ (if doc_risk_level documentation = HIGH \<and> length (transparency_measures documentation) = 0
      then [''Implement transparency measures to inform users (Article 13)''] else [])
     @ (if length (identified_risks documentation) = 0
      then [''Perform complete risk analysis and document all identified risks''] else [])"

definition validate_technical_documentation :: "TechnicalDocumentation \<Rightarrow> AnnexIVRequirements" where
  "validate_technical_documentation documentation =
     (let missing_fields = filter (field_is_missing documentation) required_fields_article_11;
          a11 = (length missing_fields = 0);
          a14 = (if doc_risk_level documentation = HIGH
                 then \<not> (\<not> truthy_opt_keys (human_oversight documentation) \<or>
                         length (oversight_measures documentation) = 0)
                 else True);
          a15 = (length (accuracy_metrics documentation) > 0);
          total_checks = 4;
          passed_checks = sum_bools [a11, True, a14, a15]
      in AnnexIVRequirements_defaults \<lparr>
           article_11_compliant := a11,
           article_11_missing_fields := missing_fields,
           article_13_compliant := True,
           article_14_compliant := a14,
           human_oversight_required := (doc_risk_level documentation = HIGH),
           article_15_compliant := a15,
           accuracy_metrics_provided := a15,
           compliance_score := of_nat passed_checks / of_nat total_checks,
           critical_gaps :=
             (if \<not> a11 then [''Incomplete technical documentation (Article 11)''] else [])
             @ (if \<not> a14 then [''Missing human oversight plan (Article 14)''] else [])
             @ (if \<not> a15 then [''Accuracy metrics not provided (Article 15)''] else []),
           recommendations := generate_recommendations documentation a11 a14 a15 \<rparr>)"

definition assess_risk_level :: "AIBOM \<Rightarrow> RiskLevel" where
  "assess_risk_level ai_bom =
     (let has_llm = list_ex (\<lambda>m. ModelType_value (model_type m) = ''llm'') (models ai_bom);
          has_multiple_models = (length (models ai_bom) > 1)
      in if has_llm \<or> has_multiple_models then HIGH
         else if length (models ai_bom) > 0 then LIMITED
         else MINIMAL)"

text \<open>
  \<open>now\<close> is the reading of the clock that the defaults of the date fields take.
\<close>

definition extract_documentation_from_bom :: "nat \<Rightarrow> AIBOM \<Rightarrow> TechnicalDocumentation" where
  "extract_documentation_from_bom now ai_bom =
     (let rl = assess_risk_level ai_bom;
          models_desc = join '', '' (map model_name (take 3 (models ai_bom)));
          general_desc = (if models ai_bom \<noteq> [] then ''AI system using: '' @ models_desc
                          else ''AI system'')
      in \<lparr> system_name = replace_all ''AI-BOM for '' [] (bom_name ai_bom),
           system_version = None,
           system_type = STANDALONE,
           doc_risk_level = rl,
           general_description = general_desc,
           intended_purpose = ''To be specified'',
           context_of_use = ''To be specified'',
           logic_description = ''To be extracted from code with LLM'',
           technical_specifications = [],
           software_dependencies = map dep_name (take 10 (dependencies ai_bom)),
           accuracy_metrics = [],
           risk_management = [],
           identified_risks = [],
           doc_mitigation_measures = [],
           human_oversight = None,
           oversight_measures = [],
           transparency_measures = [],
           doc_created_at = now,
           doc_updated_at = now \<rparr>)"

definition core_ai_libs :: "string list" where
  "core_ai_libs = [
     ''openai'', ''anthropic'', ''transformers'', ''torch'', ''tensorflow'',
     ''langchain'', ''sklearn'', ''keras'', ''huggingface'', ''llama'',
     ''vllm'', ''ollama'', ''cohere'', ''replicate'']"

definition is_ai_system :: "AIBOM \<Rightarrow> bool" where
  "is_ai_system ai_bom =
     (if length (models ai_bom) > 0 then True
      else if length (datasets ai_bom) > 0 then True
      else
        let ai_deps = filter is_ai_related_flag (dependencies ai_bom)
        in list_ex (\<lambda>dep. any_in core_ai_libs (lower (dep_name dep))) ai_deps)"

text \<open>
  The result for a repository that is not an AI system. Fields not named in the source
  take their defaults. The source passes the provider obligations under the keyword
  \<open>article_16\<close>, which is not a field of the record, so \<open>article_16_17\<close> stays
  \<open>None\<close>.
\<close>

definition create_non_ai_compliance_result :: "nat \<Rightarrow> AIBOM \<Rightarrow> string \<Rightarrow> ComplianceResult" where
  "create_non_ai_compliance_result now ai_bom sid =
     (let technical_doc =
            \<lparr> system_name = replace_all ''AI-BOM for '' [] (bom_name ai_bom),
              system_version = None,
              system_type = STANDALONE,
              doc_risk_level = MINIMAL,
              general_description = ''Non-AI system - EU AI Act not applicable'',
              intended_purpose = ''Not an AI system'',
              context_of_use = ''Standard software application'',
              logic_description = ''No AI/ML logic detected'',
              technical_specifications = [],
              software_dependencies = [],
              accuracy_metrics = [],
              risk_management = [],
              identified_risks = [],
              doc_mitigation_measures = [],
              human_oversight = None,
              oversight_measures = [],
              transparency_measures = [],
              doc_created_at = now,
              doc_updated_at = now \<rparr>;
          req = AnnexIVRequirements_defaults \<lparr>
              article_8 := Some \<lparr> all_requirements_met = True,
                                  conformity_declaration_signed = True,
                                  ce_marking_affixed = True,
                                  obligations_throughout_lifecycle = True \<rparr>,
              article_9 := Some \<lparr> continuous_process_established = True,
                                  risk_register = [],
                                  risk_assessment_methodology = None,
                                  residual_risks_acceptable = True,
                                  periodic_review_frequency = None \<rparr>,
              article_9_compliant := True,
              article_10 := Some \<lparr> datasets_documented = True,
                                   data_quality_metrics = None,
                                   bias_assessment = None,
                                   data_lineage = None,
                                   data_relevance_documented = False,
                                   representativeness_assessed = False,
                                   gdpr_compliance_verified = True,
                                   data_governance_policies = [] \<rparr>,
              article_10_compliant := True,
              article_11_compliant := True,
              article_11_missing_fields := [],
              article_12 := Some \<lparr> automatic_logging_enabled = True,
                                   logging_library_detected = None,
                                   retention_period_months = None,
                                   audit_trail_immutable = False,
                                   events_logged = [],
                                   log_format = None,
                                   access_control_implemented = False \<rparr>,
              article_12_compliant := True,
              article_13_compliant := True,
              article_14_compliant := True,
              human_oversight_required := False,
              article_15_compliant := True,
              accuracy_metrics_provided := True,
              article_15_accuracy := Some \<lparr> metrics_defined = True,
                                            acc_performance_metrics = [],
                                            testing_procedures_documented = True,
                                            model_evaluation_performed = False,
                                            benchmark_datasets_used = [] \<rparr>,
              article_15_robustness := Some \<lparr> error_handling_implemented = True,
                                              fallback_mechanisms = False,
                                              input_validation = False,
                                              adversarial_testing = False,
                                              fault_tolerance_measures = [],
                                              resilience_testing_performed = False,
                                              edge_case_handling = False \<rparr>,
              article_15_cybersecurity := Some \<lparr> security_measures_implemented = True,
                                                 data_encryption = False,
                                                 access_controls = False,
                                                 vulnerability_scanning = False,
                                                 penetration_testing = False,
                                                 incident_response_plan = False,
                                                 security_frameworks = [],
                                                 security_patches_updated = False,
                                                 authentication_mechanisms = [] \<rparr>,
              article_16_compliant := True,
              article_17_compliant := True,
              article_61 := Some \<lparr> registration_required = False,
                                   registration_completed = False,
                                   registration_id = None,
                                   registration_system_name = Some (bom_name ai_bom) \<rparr>,
              article_61_compliant := True,
              article_72_73 := Some \<lparr> monitoring_plan_established = False,
                                      monitoring_frequency = None,
                                      incident_reporting_procedure = False,
                                      incident_contact_designated = False,
                                      incident_contact_email = None,
                                      serious_incidents_count = 0,
                                      user_feedback_collection = False,
                                      user_feedback_analysis = False,
                                      corrective_actions_procedure = False,
                                      preventive_actions_procedure = False \<rparr>,
              article_72_compliant := True,
              article_73_compliant := True,
              annex_iii := Some \<lparr> is_high_risk = False,
                                  annex_iii_categories = [],
                                  keywords_detected = [],
                                  additional_requirements = [],
                                  notified_body_required = False \<rparr>,
              gpai := Some \<lparr> gpai_models_detected = [],
                             user_role = DEPLOYER,
                             technical_doc_provided = False,
                             transparency_info_users = False,
                             ai_generated_content_disclosed = False,
                             systemic_risk_assessment_required = False,
                             systemic_risk_assessment_performed = False,
                             code_of_practice_compliant = False,
                             upstream_provider_compliance_verified = False,
                             intended_use_documented = False,
                             downstream_risk_assessment = False \<rparr>,
              gpai_compliant := True,
              compliance_score := 1,
              critical_gaps := [],
              recommendations :=
                [''No action required - this is not an AI system subject to EU AI Act''] \<rparr>
      in \<lparr> system_id = sid,
           compliant = True,
           risk_level = MINIMAL,
           technical_documentation = Some technical_doc,
           requirements_check = req,
           evaluated_at = now,
           evaluated_by = None,
           ai_bom_id = Some (spdx_id ai_bom) \<rparr>)"

text \<open>
  \<open>generate_comprehensive_recommendations\<close> builds display texts with formatted
  numbers and symbols outside ASCII. Its texts are not modelled: the engine takes the
  generator as a parameter of this type, applied to the arguments the source passes.
\<close>

type_synonym recommender =
  "AnnexIVRequirements \<Rightarrow> RiskManagementSystem \<Rightarrow> DataGovernance \<Rightarrow> LoggingCapability \<Rightarrow>
   HighRiskClassification \<Rightarrow> GPAICompliance \<Rightarrow> RiskLevel \<Rightarrow> string list"

text \<open>
  \<open>PolicyEngine.evaluate_compliance\<close> is modelled in two parts. The second part,
  \<open>assemble_result\<close>, is the method from its step 4 on: from the validators' results
  it builds the requirements record, the score (step 4), the critical gaps (step 5),
  the recommendations (step 6), the overall verdict (step 7) and the result. The
  \<open>compliance_report\<close> dictionary of step 8 is a summary for display, written from
  the values computed here and read by nothing; it is left out.
\<close>

definition assemble_result ::
  "nat \<Rightarrow> recommender \<Rightarrow> AIBOM \<Rightarrow> string \<Rightarrow> TechnicalDocumentation \<Rightarrow>
   HighRiskClassification \<Rightarrow> Article8Compliance \<Rightarrow> RiskManagementSystem \<Rightarrow> DataGovernance \<Rightarrow>
   AnnexIVRequirements \<Rightarrow> LoggingCapability \<Rightarrow> AccuracyRequirements \<Rightarrow>
   RobustnessRequirements \<Rightarrow> CybersecurityRequirements \<Rightarrow> ProviderObligations \<Rightarrow>
   EUDatabaseRegistration \<Rightarrow> PostMarketMonitoring \<Rightarrow> GPAICompliance \<Rightarrow> ComplianceResult" where
  "assemble_result now gen_recs ai_bom sid technical_doc annex_iii_classification a8 a9 a10
     requirements_check_base a12 acc rob cyb a16_17 a61 a72_73 gpai_compliance =
     (let rl = doc_risk_level technical_doc;
          a9c = RiskManagementSystem_compliant a9;
          a10c = DataGovernance_compliant a10;
          a12c = LoggingCapability_compliant a12;
          a16c = conformity_assessment_completed a16_17;
          a17c = (case qms a16_17 of Some q \<Rightarrow> QualityManagementSystem_compliant q
                                   | None \<Rightarrow> False);
          a61c = EUDatabaseRegistration_compliant a61;
          a72c = PostMarketMonitoring_compliant a72_73;
          a73c = incident_reporting_procedure a72_73;
          gpai_c = (if length (gpai_models_detected gpai_compliance) > 0
                    then compliant_as_deployer gpai_compliance
                    else True);
          req = AnnexIVRequirements_defaults \<lparr>
              article_11_compliant := article_11_compliant requirements_check_base,
              article_11_missing_fields := article_11_missing_fields requirements_check_base,
              article_13_compliant := article_13_compliant requirements_check_base,
              article_14_compliant := article_14_compliant requirements_check_base,
              human_oversight_required := human_oversight_required requirements_check_base,
              article_15_compliant := article_15_compliant requirements_check_base,
              accuracy_metrics_provided := accuracy_metrics_provided requirements_check_base,
              article_8 := Some a8,
              article_9 := Some a9,
              article_9_compliant := a9c,
              article_10 := Some a10,
              article_10_compliant := a10c,
              article_12 := Some a12,
              article_12_compliant := a12c,
              article_15_accuracy := Some acc,
              article_15_robustness := Some rob,
              article_15_cybersecurity := Some cyb,
              article_16_17 := Some a16_17,
              article_16_compliant := a16c,
              article_17_compliant := a17c,
              article_61 := Some a61,
              article_61_compliant := a61c,
              article_72_73 := Some a72_73,
              article_72_compliant := a72c,
              article_73_compliant := a73c,
              annex_iii := Some annex_iii_classification,
              gpai := Some gpai_compliance,
              gpai_compliant := gpai_c,
              compliance_score := 0,
              critical_gaps := [],
              recommendations := [] \<rparr>;
          total_articles = total_articles_checked req
             + (if length (gpai_models_detected gpai_compliance) > 0 then 1 else 0);
          compliant_articles = articles_compliant_count req
             + (if length (gpai_models_detected gpai_compliance) > 0 \<and> gpai_c then 1 else 0);
          score = (if total_articles > 0
                   then of_nat compliant_articles / of_nat total_articles else 0);
          req = req \<lparr> compliance_score := score \<rparr>;
          gaps =
            (if \<not> a10c
             then [''Data Governance non-compliant (Article 10) - Quality, bias, lineage'']
             else [])
            @ (if \<not> a9c then [''Risk Management System not established (Article 9)''] else [])
            @ (if \<not> a12c then [''Automatic logging not implemented (Article 12)''] else [])
            @ (if \<not> article_11_compliant req
               then [''Incomplete technical documentation (Article 11)''] else [])
            @ (if \<not> article_14_compliant req \<and> rl = HIGH
               then [''Human Oversight missing for HIGH-RISK system (Article 14)''] else [])
            @ (if \<not> AccuracyRequirements_compliant acc
               then [''Accuracy metrics not properly defined or evaluated (Article 15)'']
               else [])
            @ (if \<not> RobustnessRequirements_compliant rob
               then [''Robustness measures insufficient (Article 15)''] else [])
            @ (if \<not> CybersecurityRequirements_compliant cyb
               then [''Cybersecurity requirements not satisfied (Article 15)''] else [])
            @ (if \<not> a16c then [''Provider Obligations not satisfied (Article 16)''] else [])
            @ (if \<not> a17c \<and> rl = HIGH
               then [''Quality Management System not established (Article 17)''] else [])
            @ (if \<not> a61c \<and> rl = HIGH
               then [''EU Database registration missing for HIGH-RISK system (Article 61)'']
               else [])
            @ (if \<not> a72c \<and> rl = HIGH
               then [''Post-Market Monitoring Plan missing (Article 72)''] else [])
            @ (if \<not> gpai_c \<and> length (gpai_models_detected gpai_compliance) > 0
               then [''GPAI Compliance not satisfied (Annex X-XIII)''] else []);
          req = req \<lparr> critical_gaps := gaps \<rparr>;
          recs = gen_recs req a9 a10 a12 annex_iii_classification gpai_compliance rl;
          req = req \<lparr> recommendations := recs \<rparr>;
          high_priority_compliant =
            (if rl = HIGH
             then list_all id [a9c, a10c, a12c, article_11_compliant req,
                               article_14_compliant req]
             else True);
          is_compliant = (score \<ge> 85/100 \<and> length gaps = 0 \<and> high_priority_compliant)
      in \<lparr> system_id = sid,
           compliant = is_compliant,
           risk_level = rl,
           technical_documentation = Some technical_doc,
           requirements_check = req,
           evaluated_at = now,
           evaluated_by = None,
           ai_bom_id = Some (spdx_id ai_bom) \<rparr>)"

text \<open>
  The first part is the method up to its step 3: the default system identifier, the
  short-circuit for a repository that is not an AI system (step 0), the documentation
  taken from the BOM when none is given, the Annex III classification and its override
  of the risk level (step 1), and the validators (steps 2 and 3). The engine's
  \<open>codebase_path\<close> and the recommendation generator are parameters;
  \<open>technical_doc\<close> and \<open>system_id\<close> are the optional arguments. Three validators
  can raise on the way, those of Article 10, of Article 12 and of the accuracy part of
  Article 15, which hand values of the free-form metadata to a record or to \<open>float\<close>;
  the method catches nothing, so the first exception leaves it.
\<close>

definition evaluate_compliance ::
  "nat \<Rightarrow> recommender \<Rightarrow> Codebase option \<Rightarrow> AIBOM \<Rightarrow> TechnicalDocumentation option \<Rightarrow>
   string option \<Rightarrow> error + ComplianceResult" where
  "evaluate_compliance now gen_recs codebase_path ai_bom technical_doc_arg system_id_arg =
     (let sid = (case system_id_arg of None \<Rightarrow> spdx_id ai_bom | Some s \<Rightarrow> s)
      in if \<not> is_ai_system ai_bom
         then Inr (create_non_ai_compliance_result now ai_bom sid)
         else
           let technical_doc = (case technical_doc_arg of
                                  None \<Rightarrow> extract_documentation_from_bom now ai_bom
                                | Some d \<Rightarrow> d);
               annex_iii_classification = classify ai_bom codebase_path;
               technical_doc = (if is_high_risk annex_iii_classification
                                then technical_doc \<lparr> doc_risk_level := HIGH \<rparr>
                                else technical_doc);
               a8 = Article8Validator_validate;
               annex_iii_category = (case annex_iii_categories annex_iii_classification of
                                       [] \<Rightarrow> None | c # cs \<Rightarrow> Some c);
               a9 = RiskManagementValidator_validate ai_bom (doc_risk_level technical_doc)
                      annex_iii_category;
               requirements_check_base = validate_technical_documentation technical_doc
           in case DataGovernanceValidator_validate ai_bom codebase_path of
                Inl e \<Rightarrow> Inl e
              | Inr a10 \<Rightarrow>
                  (case LoggingValidator_validate ai_bom codebase_path of
                     Inl e \<Rightarrow> Inl e
                   | Inr a12 \<Rightarrow>
                       (case Article15AccuracyValidator_validate ai_bom codebase_path of
                          Inl e \<Rightarrow> Inl e
                        | Inr acc \<Rightarrow>
                            Inr (assemble_result now gen_recs ai_bom sid technical_doc
                                   annex_iii_classification a8 a9 a10 requirements_check_base a12
                                   acc
                                   (Article15RobustnessValidator_validate ai_bom codebase_path)
                                   (Article15CybersecurityValidator_validate ai_bom codebase_path)
                                   (ProviderObligationsValidator_validate ai_bom
                                      (doc_risk_level technical_doc))
                                   (EUDatabaseValidator_validate (doc_risk_level technical_doc)
                                      (system_name technical_doc))
                                   (PostMarketMonitoringValidator_validate
                                      (doc_risk_level technical_doc))
                                   (GPAIValidator_validate ai_bom)))))"

section \<open>The diff engine (compliance/diff\_engine.py)\<close>

record ArticleDelta =
  article :: string
  base_compliant :: bool
  head_compliant :: bool
  changed :: bool
  direction :: string
  details :: "(string \<times> string list) list"

record ComplianceGapDelta =
  gap :: string
  gap_status :: string

record FileDelta =
  file_path :: string
  change_type :: string
  affected_articles :: "string list"

text \<open>An entry of \<open>changed_files\<close>: a dictionary that may have the keys \<open>path\<close> and \<open>status\<close>.\<close>

record ChangedFile =
  cf_path :: "string option"
  cf_status :: "string option"

text \<open>
  The values that the engine hands to \<open>json.dumps\<close>. The serialiser (called with
  \<open>sort_keys=True\<close> on a dictionary, given here as its items in the order written)
  and SHA-256 (\<open>hashlib.sha256(s.encode()).hexdigest()\<close>) belong to the standard
  library; the engine takes both as parameters.
\<close>

datatype json = JString string | JBool bool | JNumber rat | JArray "json list"

type_synonym dumps_sorted = "(string \<times> json) list \<Rightarrow> string"

type_synonym sha256_hex = "string \<Rightarrow> string"

text \<open>
  The \<open>summary\<close> field, a display text with symbols outside ASCII and formatted
  numbers, is left out of the record.
\<close>

record ComplianceDiffResult =
  schema_version :: string
  repo_id :: string
  base_commit :: string
  head_commit :: string
  diff_timestamp :: nat
  base_score :: rat
  head_score :: rat
  score_delta :: rat
  score_direction :: string
  base_risk_level :: RiskLevel
  head_risk_level :: RiskLevel
  risk_level_changed :: bool
  article_deltas :: "ArticleDelta list"
  improved_articles :: "string list"
  degraded_articles :: "string list"
  gap_deltas :: "ComplianceGapDelta list"
  new_critical_gaps :: "string list"
  resolved_gaps :: "string list"
  changed_files :: "FileDelta list"
  base_result_hash :: string
  head_result_hash :: string
  diff_hash :: string

definition compute_diff_hash :: "dumps_sorted \<Rightarrow> sha256_hex \<Rightarrow> ComplianceDiffResult \<Rightarrow> string" where
  "compute_diff_hash dumps sha256 d =
     (let data = [
            (''schema_version'', JString (schema_version d)),
            (''repo_id'', JString (repo_id d)),
            (''base_commit'', JString (base_commit d)),
            (''head_commit'', JString (head_commit d)),
            (''base_score'', JNumber (base_score d)),
            (''head_score'', JNumber (head_score d)),
            (''score_delta'', JNumber (score_delta d)),
            (''base_result_hash'', JString (base_result_hash d)),
            (''head_result_hash'', JString (head_result_hash d))];
          data_str = dumps data
      in sha256 data_str)"

definition model_post_init :: "dumps_sorted \<Rightarrow> sha256_hex \<Rightarrow> ComplianceDiffResult \<Rightarrow> ComplianceDiffResult" where
  "model_post_init dumps sha256 d =
     (if diff_hash d = [] then d \<lparr> diff_hash := compute_diff_hash dumps sha256 d \<rparr> else d)"

definition tracked_articles :: "(string \<times> string) list" where
  "tracked_articles = [
     (''Article 11 (Technical Documentation)'', ''article_11_compliant''),
     (''Article 13 (Transparency)'', ''article_13_compliant''),
     (''Article 14 (Human Oversight)'', ''article_14_compliant''),
     (''Article 15 (Accuracy & Robustness)'', ''article_15_compliant'')]"

text \<open>\<open>getattr(req, field_name, False)\<close> for the field names of \<open>tracked_articles\<close>.\<close>

definition getattr_bool :: "AnnexIVRequirements \<Rightarrow> string \<Rightarrow> bool" where
  "getattr_bool req field_name =
     (if field_name = ''article_11_compliant'' then article_11_compliant req
      else if field_name = ''article_13_compliant'' then article_13_compliant req
      else if field_name = ''article_14_compliant'' then article_14_compliant req
      else if field_name = ''article_15_compliant'' then article_15_compliant req
      else False)"

definition article_delta :: "AnnexIVRequirements \<Rightarrow> AnnexIVRequirements \<Rightarrow> string \<times> string \<Rightarrow> ArticleDelta" where
  "article_delta base_req head_req a =
     (case a of (article_name, field_name) \<Rightarrow>
        let base_val = getattr_bool base_req field_name;
            head_val = getattr_bool head_req field_name;
            is_changed = (base_val \<noteq> head_val);
            dir = (if is_changed
                   then (if head_val \<and> \<not> base_val then ''improved'' else ''degraded'')
                   else ''unchanged'');
            det = (if field_name = ''article_11_compliant''
                   then [(''base_missing_fields'', article_11_missing_fields base_req),
                         (''head_missing_fields'', article_11_missing_fields head_req)]
                        @ (if article_11_missing_fields base_req \<noteq> article_11_missing_fields head_req
                           then [(''fields_added'',
                                   filter (\<lambda>f. f \<notin> set (article_11_missing_fields head_req))
                                     (article_11_missing_fields base_req)),
                                 (''fields_still_missing'', article_11_missing_fields head_req)]
                           else [])
                   else [])
        in \<lparr> article = article_name, base_compliant = base_val, head_compliant = head_val,
             changed = is_changed, direction = dir, details = det \<rparr>)"

definition compute_article_deltas :: "AnnexIVRequirements \<Rightarrow> AnnexIVRequirements \<Rightarrow> ArticleDelta list" where
  "compute_article_deltas base_req head_req = map (article_delta base_req head_req) tracked_articles"

text \<open>
  Python sets of strings, as lists without repetition. Python leaves the order in which
  a set is iterated open; the model iterates in the order of first occurrence.
\<close>

definition set_of :: "string list \<Rightarrow> string list" where
  "set_of xs = remdups xs"

definition set_minus :: "string list \<Rightarrow> string list \<Rightarrow> string list" where
  "set_minus a b = filter (\<lambda>x. x \<notin> set b) a"

definition set_inter :: "string list \<Rightarrow> string list \<Rightarrow> string list" where
  "set_inter a b = filter (\<lambda>x. x \<in> set b) a"

definition compute_gap_deltas :: "string list \<Rightarrow> string list \<Rightarrow> ComplianceGapDelta list" where
  "compute_gap_deltas base_gaps head_gaps =
     (let base_set = set_of base_gaps;
          head_set = set_of head_gaps
      in map (\<lambda>g. \<lparr> gap = g, gap_status = ''new'' \<rparr>) (set_minus head_set base_set)
         @ map (\<lambda>g. \<lparr> gap = g, gap_status = ''resolved'' \<rparr>) (set_minus base_set head_set)
         @ map (\<lambda>g. \<lparr> gap = g, gap_status = ''existing'' \<rparr>) (set_inter base_set head_set))"

definition analyze_file_changes :: "ChangedFile list option \<Rightarrow> string list \<Rightarrow> FileDelta list" where
  "analyze_file_changes files degraded =
     (case files of
        None \<Rightarrow> []
      | Some fs \<Rightarrow>
          if fs = [] then []
          else take 10 (map (\<lambda>file_info.
                 let path = (case cf_path file_info of Some p \<Rightarrow> p | None \<Rightarrow> []);
                     ctype = (case cf_status file_info of Some t \<Rightarrow> t | None \<Rightarrow> ''modified'');
                     affected = (if degraded \<noteq> [] \<and> any_in [''.py'', ''.js'', ''.ts'', ''.java''] path
                                 then take 2 degraded else [])
                 in \<lparr> file_path = path, change_type = ctype, affected_articles = affected \<rparr>) fs))"

definition hash_compliance_result :: "dumps_sorted \<Rightarrow> sha256_hex \<Rightarrow> ComplianceResult \<Rightarrow> string" where
  "hash_compliance_result dumps sha256 result =
     (let data = [
            (''system_id'', JString (system_id result)),
            (''compliant'', JBool (compliant result)),
            (''compliance_score'', JNumber (compliance_score (requirements_check result))),
            (''risk_level'', JString (RiskLevel_value (risk_level result))),
            (''critical_gaps'',
               JArray (map JString (sort (critical_gaps (requirements_check result)))))];
          data_str = dumps data
      in sha256 data_str)"

text \<open>
  The scores are Python floats, IEEE 754 double-precision numbers; a finite one is the
  rational number it stands for. The difference of two doubles is the double nearest to
  the exact difference, the one with the even significand when two are equally near:
  \<open>ilog2 x\<close> is the exponent of a positive \<open>x\<close> (\<open>2 powi e \<le> x < 2 powi (e + 1)\<close>),
  the doubles of that exponent are the multiples of \<open>2 powi (e - 52)\<close>, and below the
  smallest normal exponent, \<open>-1022\<close>, the multiples of \<open>2 powi (-1074)\<close>. The
  differences taken here are of scores between 0 and 1, so none is too large for a
  double. Comparisons of doubles are exact, and the literal \<open>0.01\<close> is the double
  nearest to one hundredth.
\<close>

definition ilog2 :: "rat \<Rightarrow> int" where
  "ilog2 x =
     (let (p, q) = quotient_of x;
          d = bitlen p - bitlen q
      in if 2 powi d \<le> x then d else d - 1)"

definition round_half_even :: "rat \<Rightarrow> int" where
  "round_half_even y =
     (let f = \<lfloor>y\<rfloor>;
          r = y - of_int f
      in if r < 1/2 then f
         else if r > 1/2 then f + 1
         else if even f then f else f + 1)"

definition round_double :: "rat \<Rightarrow> rat" where
  "round_double x =
     (if x = 0 then 0
      else let e = ilog2 \<bar>x\<bar>;
               k = max e (- 1022) - 52
           in of_int (round_half_even (x / 2 powi k)) * 2 powi k)"

definition float_sub :: "rat \<Rightarrow> rat \<Rightarrow> rat" where
  "float_sub x y = round_double (x - y)"

definition float_0_01 :: rat where
  "float_0_01 = round_double (1/100)"

text \<open>
  A score as the field \<open>compliance_score\<close> declares it (\<open>ge=0.0\<close>, \<open>le=1.0\<close>): a
  double between 0 and 1.
\<close>

definition is_score :: "rat \<Rightarrow> bool" where
  "is_score x = (round_double x = x \<and> 0 \<le> x \<and> x \<le> 1)"

text \<open>
  \<open>compute_diff\<close>. \<open>now\<close> is the clock's reading that \<open>diff_timestamp\<close> takes by
  default.
\<close>

definition compute_diff ::
  "dumps_sorted \<Rightarrow> sha256_hex \<Rightarrow> nat \<Rightarrow> ComplianceResult \<Rightarrow> ComplianceResult \<Rightarrow> string \<Rightarrow>
   string \<Rightarrow> string \<Rightarrow> ChangedFile list option \<Rightarrow> ComplianceDiffResult" where
  "compute_diff dumps sha256 now base_result head_result rid base_c head_c files =
     (let b_score = compliance_score (requirements_check base_result);
          h_score = compliance_score (requirements_check head_result);
          delta = float_sub h_score b_score;
          dir = (if \<bar>delta\<bar> < float_0_01 then ''unchanged''
                 else if delta > 0 then ''improved''
                 else ''degraded'');
          a_deltas = compute_article_deltas (requirements_check base_result)
                       (requirements_check head_result);
          improved = map article (filter (\<lambda>a. direction a = ''improved'') a_deltas);
          degraded = map article (filter (\<lambda>a. direction a = ''degraded'') a_deltas);
          g_deltas = compute_gap_deltas (critical_gaps (requirements_check base_result))
                       (critical_gaps (requirements_check head_result));
          new_gaps = map gap (filter (\<lambda>g. gap_status g = ''new'') g_deltas);
          resolved = map gap (filter (\<lambda>g. gap_status g = ''resolved'') g_deltas);
          file_deltas = analyze_file_changes files degraded;
          base_hash = hash_compliance_result dumps sha256 base_result;
          head_hash = hash_compliance_result dumps sha256 head_result;
          diff_result = model_post_init dumps sha256
            \<lparr> schema_version = ''1.0.0'',
              repo_id = rid,
              base_commit = base_c,
              head_commit = head_c,
              diff_timestamp = now,
              base_score = b_score,
              head_score = h_score,
              score_delta = delta,
              score_direction = dir,
              base_risk_level = risk_level base_result,
              head_risk_level = risk_level head_result,
              risk_level_changed = (risk_level base_result \<noteq> risk_level head_result),
              article_deltas = a_deltas,
              improved_articles = improved,
              degraded_articles = degraded,
              gap_deltas = g_deltas,
              new_critical_gaps = new_gaps,
              resolved_gaps = resolved,
              changed_files = file_deltas,
              base_result_hash = base_hash,
              head_result_hash = head_hash,
              diff_hash = [] \<rparr>
      in diff_result \<lparr> diff_hash := compute_diff_hash dumps sha256 diff_result \<rparr>)"

section \<open>Dependencies (utils/config\_extractor.py, bom/generator.py)\<close>

definition ai_keywords :: "string list" where
  "ai_keywords = [
     ''openai'', ''anthropic'', ''cohere'', ''replicate'', ''together'',
     ''groq'', ''fireworks'', ''mistralai'', ''google-generativeai'',
     ''vertexai'', ''bedrock'', ''ollama'',
     ''torch'', ''tensorflow'', ''keras'', ''sklearn'', ''scikit-learn'',
     ''pytorch'', ''jax'', ''flax'', ''onnx'', ''xgboost'', ''lightgbm'',
     ''catboost'', ''prophet'', ''statsmodels'',
     ''transformers'', ''huggingface'', ''huggingface-hub'', ''datasets'',
     ''tokenizers'', ''accelerate'', ''peft'', ''trl'', ''evaluate'',
     ''sentence-transformers'', ''sentence_transformers'',
     ''langchain'', ''llama-index'', ''llama_index'', ''llamaindex'',
     ''haystack'', ''guidance'', ''semantic-kernel'', ''autogen'',
     ''crewai'', ''dspy'', ''instructor'', ''outlines'', ''vllm'',
     ''chromadb'', ''pinecone'', ''weaviate'', ''qdrant'', ''milvus'',
     ''faiss'', ''pgvector'', ''lancedb'',
     ''mlflow'', ''wandb'', ''neptune'', ''clearml'', ''optuna'',
     ''ray'', ''dask'', ''polars'',
     ''pandas'', ''numpy'', ''scipy'', ''matplotlib'', ''seaborn'',
     ''plotly'', ''bokeh'', ''altair'',
     ''opencv'', ''cv2'', ''pillow'', ''torchvision'', ''detectron2'',
     ''ultralytics'', ''yolo'',
     ''whisper'', ''speechrecognition'', ''torchaudio'', ''librosa'',
     ''spacy'', ''nltk'', ''gensim'', ''flair'', ''stanza'',
     ''fairlearn'', ''aif360'', ''shap'', ''lime'', ''alibi'',
     ''interpret'', ''eli5'']"

text \<open>
  The name as \<open>is_ai_related\<close> compares it: lower case, with hyphen and dot turned
  into the underscore.
\<close>

definition package_lower :: "string \<Rightarrow> string" where
  "package_lower package_name =
     replace_char (CHR ''.'') (CHR ''_'') (replace_char (CHR ''-'') (CHR ''_'') (lower package_name))"

definition is_ai_related :: "string \<Rightarrow> bool" where
  "is_ai_related package_name =
     list_ex (\<lambda>keyword. str_in (replace_char (CHR ''-'') (CHR ''_'') keyword)
                                (package_lower package_name))
             ai_keywords"

text \<open>A dependency as the extractors return it: the dictionary with its four keys.\<close>

record ConfigDependency =
  cd_name :: string
  cd_version :: "string option"
  cd_package_manager :: string
  cd_source_file :: string

text \<open>
  \<open>extract_from_package_json\<close>, from the parsed document on: \<open>data\<close> maps a section
  to its entries, each a name and its version (\<open>None\<close> for a version that is not a
  string).
\<close>

definition extract_from_package_json ::
  "string \<Rightarrow> (string \<times> (string \<times> string option) list) list \<Rightarrow> ConfigDependency list" where
  "extract_from_package_json path data =
     concat (map (\<lambda>dep_type.
        case map_of data dep_type of
          None \<Rightarrow> []
        | Some entries \<Rightarrow>
            map (\<lambda>(name, version).
                   \<lparr> cd_name = lower name, cd_version = version,
                     cd_package_manager = ''npm'', cd_source_file = path \<rparr>) entries)
        [''dependencies'', ''devDependencies'', ''peerDependencies''])"

text \<open>A detection of the \<open>ml_libraries\<close> bucket: its file and the text of its match.\<close>

record Detection =
  det_file :: string
  det_match_text :: string

text \<open>
  \<open>_extract_dependencies\<close>. The state of its two loops is the component list and the
  set of names seen. \<open>re_search\<close> is the standard library's
  \<open>re.search(r"import\s+([a-zA-Z0-9_]+)", text)\<close>, giving group 1 of the match.
\<close>

definition config_step ::
  "DependencyComponent list \<times> string list \<Rightarrow> ConfigDependency \<Rightarrow>
   DependencyComponent list \<times> string list" where
  "config_step st dep =
     (case st of (deps, seen_deps) \<Rightarrow>
        let name = cd_name dep
        in if name \<noteq> [] \<and> name \<notin> set seen_deps
           then (deps @ [\<lparr> dep_name = name,
                            dep_version = cd_version dep,
                            package_manager = Some (cd_package_manager dep),
                            is_ai_related_flag = is_ai_related name,
                            dep_detected_in = [cd_source_file dep] \<rparr>],
                 name # seen_deps)
           else (deps, seen_deps))"

definition import_step ::
  "(string \<Rightarrow> string option) \<Rightarrow> DependencyComponent list \<times> string list \<Rightarrow> Detection \<Rightarrow>
   DependencyComponent list \<times> string list" where
  "import_step re_search st detection =
     (case st of (deps, seen_deps) \<Rightarrow>
        case re_search (det_match_text detection) of
          None \<Rightarrow> (deps, seen_deps)
        | Some g \<Rightarrow>
            let lib_name = lower g
            in if lib_name \<notin> set seen_deps
               then (deps @ [\<lparr> dep_name = lib_name,
                                dep_version = None,
                                package_manager = None,
                                is_ai_related_flag = True,
                                dep_detected_in = [det_file detection] \<rparr>],
                     lib_name # seen_deps)
               else (deps, seen_deps))"

definition extract_dependencies ::
  "(string \<Rightarrow> string option) \<Rightarrow> Detection list \<Rightarrow> ConfigDependency list \<Rightarrow>
   DependencyComponent list" where
  "extract_dependencies re_search ml_libraries config_dependencies =
     fst (foldl (import_step re_search)
            (foldl config_step ([], []) config_dependencies)
            ml_libraries)"

section \<open>Concrete inputs\<close>

text \<open>
  Two values as a JSON file gives them, a small integer and a string of letters, with
  what the conversions make of them: \<open>float\<close> converts the integer and refuses the
  string; pydantic takes the integer for \<open>Optional[int]\<close> only and the string for
  \<open>Optional[str]\<close> only; only the string can be iterated, character by character.
\<close>

definition int_value :: "int \<Rightarrow> AnyValue" where
  "int_value n =
     \<lparr> float_of = FloatValue (Finite (of_int n)), as_optional_int = Fit (Some n),
       as_optional_str = Unfit, as_str_list = Unfit, iterated = None \<rparr>"

definition str_value :: "string \<Rightarrow> AnyValue" where
  "str_value s =
     \<lparr> float_of = FloatRefused, as_optional_int = Unfit,
       as_optional_str = Fit (Some s), as_str_list = Unfit,
       iterated = Some (Fit (map (\<lambda>c. [c]) s)) \<rparr>"

text \<open>A chatbot repository: one model served by an API, one manifest dependency.\<close>

definition example_model :: ModelComponent where
  "example_model =
     \<lparr> model_name = ''gpt-4'', model_version = None, model_type = LLM,
       provider = Some ''OpenAI'', api_endpoint = None, model_license = None,
       model_source_location = None, model_detected_in = [''app.py''],
       usage_context = Some ''api_call'' \<rparr>"

definition example_dep :: DependencyComponent where
  "example_dep =
     \<lparr> dep_name = ''openai'', dep_version = Some ''1.3.0'', package_manager = Some ''pip'',
       is_ai_related_flag = True, dep_detected_in = [''requirements.txt''] \<rparr>"

definition example_bom :: AIBOM where
  "example_bom =
     \<lparr> spdx_version = ''SPDX-3.0'', data_license = ''CC0-1.0'',
       spdx_id = ''SPDXRef-DOCUMENT-1'', bom_name = ''AI-BOM for chatbot'',
       document_namespace = ''https://actproof.ai/spdx/1'', created = 0,
       creator = ''ActProof.ai Scanner'', models = [example_model], datasets = [],
       dependencies = [example_dep], repository_url = None, repository_commit = None,
       scan_timestamp = 0,
       metadata = \<lparr> md_items = [(''log_retention_months'', int_value 12)],
                     md_str = ''{'log_retention_months': 12}'' \<rparr> \<rparr>"

text \<open>
  The same repository with its governance policies given in the metadata as one string,
  where the record expects a list of strings.
\<close>

definition policies_as_text_bom :: AIBOM where
  "policies_as_text_bom =
     example_bom \<lparr> metadata :=
       \<lparr> md_items = [(''data_governance_policies'', str_value ''internal'')],
         md_str = ''{'data_governance_policies': 'internal'}'' \<rparr> \<rparr>"

text \<open>The same repository with a log retention of three months in its metadata.\<close>

definition short_retention_bom :: AIBOM where
  "short_retention_bom =
     example_bom \<lparr> metadata :=
       \<lparr> md_items = [(''log_retention_months'', int_value 3)],
         md_str = ''{'log_retention_months': 3}'' \<rparr> \<rparr>"

text \<open>A repository with a scikit-learn style custom model and no general-purpose model.\<close>

definition custom_model :: ModelComponent where
  "custom_model =
     \<lparr> model_name = ''sklearn.RandomForestClassifier'', model_version = None,
       model_type = CUSTOM, provider = Some ''scikit-learn'', api_endpoint = None,
       model_license = None, model_source_location = None,
       model_detected_in = [''train.py''], usage_context = Some ''training'' \<rparr>"

definition custom_bom :: AIBOM where
  "custom_bom = example_bom \<lparr> bom_name := ''AI-BOM for forest'', models := [custom_model] \<rparr>"

text \<open>An ordinary web service: no model, no dataset, one dependency that is not AI-related.\<close>

definition plain_dep :: DependencyComponent where
  "plain_dep =
     \<lparr> dep_name = ''requests'', dep_version = Some ''2.31.0'', package_manager = Some ''pip'',
       is_ai_related_flag = False, dep_detected_in = [''requirements.txt''] \<rparr>"

definition plain_bom :: AIBOM where
  "plain_bom =
     \<lparr> spdx_version = ''SPDX-3.0'', data_license = ''CC0-1.0'',
       spdx_id = ''SPDXRef-DOCUMENT-2'', bom_name = ''AI-BOM for webshop'',
       document_namespace = ''https://actproof.ai/spdx/2'', created = 0,
       creator = ''ActProof.ai Scanner'', models = [], datasets = [],
       dependencies = [plain_dep], repository_url = None, repository_commit = None,
       scan_timestamp = 0,
       metadata = \<lparr> md_items = [], md_str = ''{}'' \<rparr> \<rparr>"

text \<open>
  The arguments with which the generator constructs the chatbot's BOM, and the same
  read from a JSON file that has no \<open>creator\<close>.
\<close>

definition example_kwargs :: AIBOM_kwargs where
  "example_kwargs =
     \<lparr> kw_spdx_version = None, kw_data_license = None,
       kw_spdx_id = Some (Fit ''SPDXRef-DOCUMENT-1''),
       kw_name = Some (Fit ''AI-BOM for chatbot''),
       kw_document_namespace = Some (Fit ''https://actproof.ai/spdx/1''),
       kw_created = None,
       kw_creator = Some (Fit ''ActProof.ai Scanner''),
       kw_models = Some (Fit [example_model]),
       kw_datasets = Some (Fit []),
       kw_dependencies = Some (Fit [example_dep]),
       kw_repository_url = Some (Fit None),
       kw_repository_commit = Some (Fit None),
       kw_scan_timestamp = None,
       kw_metadata = Some (Fit \<lparr> md_items = [(''log_retention_months'', int_value 12)],
                                 md_str = ''{'log_retention_months': 12}'' \<rparr>) \<rparr>"

definition kwargs_without_creator :: AIBOM_kwargs where
  "kwargs_without_creator = example_kwargs \<lparr> kw_creator := None \<rparr>"

text \<open>A recommendation generator that recommends nothing.\<close>

definition no_recs :: recommender where
  "no_recs req a9 a10 a12 annex g rl = []"

text \<open>A risk of critical severity that has been mitigated, and a register holding it.\<close>

definition mitigated_critical_risk :: Risk where
  "mitigated_critical_risk =
     \<lparr> risk_id = ''RISK-LLM-002'',
       risk_title = ''Generation of harmful or illegal'',
       risk_description = ''Generation of harmful or illegal content'',
       risk_category = FUNDAMENTAL_RIGHTS,
       severity = SevCRITICAL,
       likelihood = LikMEDIUM,
       affected_stakeholders = [''End users'', ''Data subjects''],
       risk_mitigation_measures = [''Output filter''],
       status = MITIGATED \<rparr>"

definition rms_mitigated_critical :: RiskManagementSystem where
  "rms_mitigated_critical =
     \<lparr> continuous_process_established = True,
       risk_register = [mitigated_critical_risk],
       risk_assessment_methodology = None,
       residual_risks_acceptable = True,
       periodic_review_frequency = None \<rparr>"

definition rms_high_only :: RiskManagementSystem where
  "rms_high_only =
     rms_mitigated_critical \<lparr> risk_register := [mitigated_critical_risk \<lparr> severity := SevHIGH \<rparr>] \<rparr>"

text \<open>Compliance results with a given score and gap list, for the diff engine.\<close>

definition result_with :: "rat \<Rightarrow> string list \<Rightarrow> ComplianceResult" where
  "result_with score gaps =
     \<lparr> system_id = ''SPDXRef-DOCUMENT-1'',
       compliant = False,
       risk_level = HIGH,
       technical_documentation = None,
       requirements_check =
         AnnexIVRequirements_defaults \<lparr> compliance_score := score, critical_gaps := gaps \<rparr>,
       evaluated_at = 0,
       evaluated_by = None,
       ai_bom_id = None \<rparr>"

text \<open>
  Simple functions in the places of the serialiser, the hash and the
  regular-expression search, to run the engines on the inputs above.
\<close>

definition show_json :: "json \<Rightarrow> string" where
  "show_json j = (case j of JString s \<Rightarrow> s | JBool b \<Rightarrow> (if b then ''true'' else ''false'')
                  | JNumber x \<Rightarrow> ''#'' | JArray xs \<Rightarrow> ''[]'')"

definition sample_dumps :: dumps_sorted where
  "sample_dumps kvs = concat (map (\<lambda>(k, v). k @ '':'' @ show_json v @ '';'') kvs)"

definition sample_sha256 :: sha256_hex where
  "sample_sha256 s = rev s"

definition no_import :: "string \<Rightarrow> string option" where
  "no_import text = None"

section \<open>Results\<close>

subsection \<open>Construction of a Bill of Materials\<close>

lemma required_errors_Nil_iff: "required_errors n a = [] \<longleftrightarrow> (\<exists>v. a = Some (Fit v))"
  by (simp add: required_errors_def split: option.splits validated.splits)

lemma default_errors_Nil_iff: "default_errors n a = [] \<longleftrightarrow> a \<noteq> Some Unfit"
  by (simp add: default_errors_def split: option.splits validated.splits)

lemma validator_errors_Nil_iff:
  "validator_errors f a = [] \<longleftrightarrow> (\<forall>v. a = Some (Fit v) \<longrightarrow> f v = None)"
  by (simp add: validator_errors_def split: option.splits validated.splits)

lemma AIBOM_errors_Nil_iff:
  "AIBOM_errors kw = [] \<longleftrightarrow>
     \<not> missing_required kw \<and> \<not> unfit_argument kw \<and>
     (\<forall>v. kw_spdx_id kw = Some (Fit v) \<longrightarrow> startswith v ''SPDXRef-'') \<and>
     (\<forall>v. kw_document_namespace kw = Some (Fit v) \<longrightarrow> startswith v ''https://'')"
proof -
  have r: "(\<exists>v. a = Some (Fit v)) \<longleftrightarrow> a \<noteq> None \<and> a \<noteq> Some Unfit" for a :: "'a validated option"
    by (cases a) (auto intro: validated.exhaust)
  show ?thesis
    unfolding AIBOM_errors_def missing_required_def unfit_argument_def
    by (simp add: required_errors_Nil_iff default_errors_Nil_iff validator_errors_Nil_iff r
        validate_spdx_id_def validate_namespace_def) blast
qed

lemma new_AIBOM_isl_iff: "isl (new_AIBOM now kw) \<longleftrightarrow> AIBOM_errors kw \<noteq> []"
  by (simp add: new_AIBOM_def split: list.splits)

text \<open>
  Claim C9, as the code has it. Constructing an AIBOM raises a validation error exactly
  when the \<open>spdx_id\<close> does not start with \<open>SPDXRef-\<close>, the \<open>document_namespace\<close>
  does not start with \<open>https://\<close>, a required field (\<open>spdx_id\<close>, \<open>name\<close>,
  \<open>document_namespace\<close>, \<open>creator\<close>) is missing, or an argument is unfit for its
  field's type. Every AIBOM that the construction returns carries the given identifier
  and namespace, both well-formed.
\<close>

theorem new_AIBOM_raises_iff:
  "(isl (new_AIBOM now kw) \<longleftrightarrow>
      (\<exists>v. kw_spdx_id kw = Some (Fit v) \<and> \<not> startswith v ''SPDXRef-'') \<or>
      (\<exists>v. kw_document_namespace kw = Some (Fit v) \<and> \<not> startswith v ''https://'') \<or>
      missing_required kw \<or> unfit_argument kw) \<and>
   (\<forall>b. new_AIBOM now kw = Inr b \<longrightarrow>
      kw_spdx_id kw = Some (Fit (spdx_id b)) \<and>
      kw_document_namespace kw = Some (Fit (document_namespace b)) \<and>
      startswith (spdx_id b) ''SPDXRef-'' \<and> startswith (document_namespace b) ''https://'')"
proof -
  have 1: "isl (new_AIBOM now kw) \<longleftrightarrow>
      (\<exists>v. kw_spdx_id kw = Some (Fit v) \<and> \<not> startswith v ''SPDXRef-'') \<or>
      (\<exists>v. kw_document_namespace kw = Some (Fit v) \<and> \<not> startswith v ''https://'') \<or>
      missing_required kw \<or> unfit_argument kw"
    unfolding new_AIBOM_isl_iff AIBOM_errors_Nil_iff by blast
  have 2: "kw_spdx_id kw = Some (Fit (spdx_id b)) \<and>
      kw_document_namespace kw = Some (Fit (document_namespace b)) \<and>
      startswith (spdx_id b) ''SPDXRef-'' \<and> startswith (document_namespace b) ''https://''"
    if b: "new_AIBOM now kw = Inr b" for b
  proof -
    from b have e: "AIBOM_errors kw = []"
      by (simp add: new_AIBOM_def split: list.splits)
    then have m: "\<not> missing_required kw" and u: "\<not> unfit_argument kw"
      and s: "\<forall>v. kw_spdx_id kw = Some (Fit v) \<longrightarrow> startswith v ''SPDXRef-''"
      and n: "\<forall>v. kw_document_namespace kw = Some (Fit v) \<longrightarrow> startswith v ''https://''"
      using AIBOM_errors_Nil_iff by blast+
    from m u obtain sid where sid: "kw_spdx_id kw = Some (Fit sid)"
      unfolding missing_required_def unfit_argument_def
      by (cases "kw_spdx_id kw") (auto intro: validated.exhaust)
    from m u obtain ns where ns: "kw_document_namespace kw = Some (Fit ns)"
      unfolding missing_required_def unfit_argument_def
      by (cases "kw_document_namespace kw") (auto intro: validated.exhaust)
    from b e have "spdx_id b = sid" "document_namespace b = ns"
      by (auto simp: new_AIBOM_def value_or_def sid ns)
    with sid ns s n show ?thesis by simp
  qed
  from 1 2 show ?thesis by blast
qed

theorem new_AIBOM_witness:
  "\<not> isl (new_AIBOM 0 example_kwargs) \<and>
   (\<exists>b. new_AIBOM 0 example_kwargs = Inr b \<and> spdx_id b = ''SPDXRef-DOCUMENT-1'' \<and>
        document_namespace b = ''https://actproof.ai/spdx/1'') \<and>
   isl (new_AIBOM 0 (example_kwargs \<lparr> kw_spdx_id := Some (Fit ''DOCUMENT-1'') \<rparr>)) \<and>
   isl (new_AIBOM 0 (example_kwargs
          \<lparr> kw_document_namespace := Some (Fit ''http://actproof.ai/spdx/1'') \<rparr>)) \<and>
   isl (new_AIBOM 0 (example_kwargs \<lparr> kw_models := Some Unfit \<rparr>))"
proof -
  have 1: "\<not> isl (new_AIBOM 0 example_kwargs)"
    using new_AIBOM_raises_iff [of 0 example_kwargs]
    by (simp add: example_kwargs_def missing_required_def unfit_argument_def startswith_def)
  then obtain b where b: "new_AIBOM 0 example_kwargs = Inr b"
    by (cases "new_AIBOM 0 example_kwargs") auto
  with new_AIBOM_raises_iff [of 0 example_kwargs]
  have 2: "spdx_id b = ''SPDXRef-DOCUMENT-1''"
    "document_namespace b = ''https://actproof.ai/spdx/1''"
    by (simp_all add: example_kwargs_def)
  have 3: "isl (new_AIBOM 0 (example_kwargs \<lparr> kw_spdx_id := Some (Fit ''DOCUMENT-1'') \<rparr>))"
    using new_AIBOM_raises_iff [of 0 "example_kwargs \<lparr> kw_spdx_id := Some (Fit ''DOCUMENT-1'') \<rparr>"]
    by (simp add: startswith_def)
  have 4: "isl (new_AIBOM 0 (example_kwargs
          \<lparr> kw_document_namespace := Some (Fit ''http://actproof.ai/spdx/1'') \<rparr>))"
    using new_AIBOM_raises_iff [of 0 "example_kwargs
          \<lparr> kw_document_namespace := Some (Fit ''http://actproof.ai/spdx/1'') \<rparr>"]
    by (simp add: startswith_def)
  have 5: "isl (new_AIBOM 0 (example_kwargs \<lparr> kw_models := Some Unfit \<rparr>))"
    using new_AIBOM_raises_iff [of 0 "example_kwargs \<lparr> kw_models := Some Unfit \<rparr>"]
    by (simp add: unfit_argument_def)
  from 1 b 2 3 4 5 show ?thesis by blast
qed

text \<open>
  Claim C9 as stated lets the construction raise only for a malformed identifier or
  namespace. The arguments read from a file that has no \<open>creator\<close> carry a
  well-formed identifier and a well-formed namespace, and the construction raises.
\<close>

theorem missing_creator_counterexample:
  "kw_spdx_id kwargs_without_creator = Some (Fit ''SPDXRef-DOCUMENT-1'') \<and>
   startswith ''SPDXRef-DOCUMENT-1'' ''SPDXRef-'' \<and>
   kw_document_namespace kwargs_without_creator = Some (Fit ''https://actproof.ai/spdx/1'') \<and>
   startswith ''https://actproof.ai/spdx/1'' ''https://'' \<and>
   new_AIBOM 0 kwargs_without_creator = Inl (ValidationError [''creator''])"
  by code_simp

subsection \<open>Risk management\<close>

text \<open>
  Claim C5, as the code has it. A risk management system is compliant exactly when the
  continuous process is established, the risk register is not empty, the register holds
  no risk of critical severity, whatever its status, and the residual risks are
  acceptable.
\<close>

theorem RiskManagementSystem_compliant_iff:
  "RiskManagementSystem_compliant s \<longleftrightarrow>
     continuous_process_established s \<and>
     risk_register s \<noteq> [] \<and>
     (\<forall>r \<in> set (risk_register s). severity r \<noteq> SevCRITICAL) \<and>
     residual_risks_acceptable s"
  by (auto simp: RiskManagementSystem_compliant_def critical_risks_count_def filter_empty_conv)

theorem RiskManagementSystem_compliant_witness:
  "RiskManagementSystem_compliant rms_high_only \<and>
   \<not> RiskManagementSystem_compliant rms_mitigated_critical"
  using RiskManagementSystem_compliant_iff [of rms_high_only]
    RiskManagementSystem_compliant_iff [of rms_mitigated_critical]
  by (simp add: rms_high_only_def rms_mitigated_critical_def mitigated_critical_risk_def)

text \<open>
  Claim C5 as stated counts only the critical risks that are unmitigated (status
  \<open>IDENTIFIED\<close>, as \<open>check_residual_risks\<close> counts them). A register whose one
  critical risk has been mitigated meets every condition of the claim and is not
  compliant.
\<close>

theorem mitigated_critical_counterexample:
  "\<not> (RiskManagementSystem_compliant rms_mitigated_critical \<longleftrightarrow>
        continuous_process_established rms_mitigated_critical \<and>
        risk_register rms_mitigated_critical \<noteq> [] \<and>
        check_residual_risks (risk_register rms_mitigated_critical) \<and>
        residual_risks_acceptable rms_mitigated_critical)"
  by (simp add: RiskManagementSystem_compliant_def critical_risks_count_def
      check_residual_risks_def rms_mitigated_critical_def mitigated_critical_risk_def)

subsection \<open>The diff engine: gaps and score\<close>

lemma new_gaps_of_deltas:
  "map gap (filter (\<lambda>g. gap_status g = ''new'') (compute_gap_deltas b h)) =
     set_minus (set_of h) (set_of b)"
  by (simp add: compute_gap_deltas_def Let_def filter_map o_def)

lemma resolved_gaps_of_deltas:
  "map gap (filter (\<lambda>g. gap_status g = ''resolved'') (compute_gap_deltas b h)) =
     set_minus (set_of b) (set_of h)"
  by (simp add: compute_gap_deltas_def Let_def filter_map o_def)

lemma new_critical_gaps_compute_diff:
  "new_critical_gaps (compute_diff dumps sha now b h rid bc hc files) =
     set_minus (set_of (critical_gaps (requirements_check h)))
               (set_of (critical_gaps (requirements_check b)))"
  by (simp add: compute_diff_def Let_def model_post_init_def new_gaps_of_deltas)

lemma resolved_gaps_compute_diff:
  "resolved_gaps (compute_diff dumps sha now b h rid bc hc files) =
     set_minus (set_of (critical_gaps (requirements_check b)))
               (set_of (critical_gaps (requirements_check h)))"
  by (simp add: compute_diff_def Let_def model_post_init_def resolved_gaps_of_deltas)

lemma set_set_minus: "set (set_minus (set_of xs) (set_of ys)) = set xs - set ys"
  by (auto simp: set_minus_def set_of_def)

text \<open>
  Claim C7. When the set of the head result's critical gaps is a strict superset of the
  set of the base result's, the diff has a non-empty \<open>new_critical_gaps\<close> and an
  empty \<open>resolved_gaps\<close>.
\<close>

theorem superset_gaps_new_not_resolved:
  assumes "set (critical_gaps (requirements_check b)) \<subset> set (critical_gaps (requirements_check h))"
  shows "new_critical_gaps (compute_diff dumps sha now b h rid bc hc files) \<noteq> [] \<and>
         resolved_gaps (compute_diff dumps sha now b h rid bc hc files) = []"
proof -
  let ?B = "critical_gaps (requirements_check b)" and ?H = "critical_gaps (requirements_check h)"
  from assms have "set ?H - set ?B \<noteq> {}" and "set ?B - set ?H = {}" by auto
  then have "set (set_minus (set_of ?H) (set_of ?B)) \<noteq> {}"
    and "set (set_minus (set_of ?B) (set_of ?H)) = {}"
    by (simp_all add: set_set_minus)
  then show ?thesis
    by (simp add: new_critical_gaps_compute_diff resolved_gaps_compute_diff)
qed

theorem superset_gaps_witness:
  "set (critical_gaps (requirements_check
          (result_with (11/13) [''Provider Obligations not satisfied (Article 16)'']))) \<subset>
   set (critical_gaps (requirements_check
          (result_with (10/13) [''Provider Obligations not satisfied (Article 16)'',
                                ''Automatic logging not implemented (Article 12)'']))) \<and>
   new_critical_gaps (compute_diff sample_dumps sample_sha256 0
       (result_with (11/13) [''Provider Obligations not satisfied (Article 16)''])
       (result_with (10/13) [''Provider Obligations not satisfied (Article 16)'',
                             ''Automatic logging not implemented (Article 12)''])
       ''repo'' ''abc'' ''def'' None) \<noteq> [] \<and>
   resolved_gaps (compute_diff sample_dumps sample_sha256 0
       (result_with (11/13) [''Provider Obligations not satisfied (Article 16)''])
       (result_with (10/13) [''Provider Obligations not satisfied (Article 16)'',
                             ''Automatic logging not implemented (Article 12)''])
       ''repo'' ''abc'' ''def'' None) = []"
proof -
  have h: "set (critical_gaps (requirements_check
          (result_with (11/13) [''Provider Obligations not satisfied (Article 16)'']))) \<subset>
   set (critical_gaps (requirements_check
          (result_with (10/13) [''Provider Obligations not satisfied (Article 16)'',
                                ''Automatic logging not implemented (Article 12)''])))"
    by (auto simp: result_with_def)
  from superset_gaps_new_not_resolved [OF h, of sample_dumps sample_sha256 0
      "''repo''" "''abc''" "''def''" None] h
  show ?thesis by blast
qed

subsection \<open>The diff engine: double-precision arithmetic\<close>

text \<open>
  The exponent that \<open>ilog2\<close> computes is the binary exponent, and \<open>round_double\<close>
  gives a multiple of the spacing of the doubles at that exponent, at most half a
  spacing away from its argument.
\<close>

lemma bitlen_bounds_rat:
  assumes "0 < (p::int)"
  shows "(2::rat) powi (bitlen p - 1) \<le> of_int p" "of_int p < (2::rat) powi (bitlen p)"
proof -
  have b: "1 \<le> bitlen p" using assms by (auto simp: bitlen_alt_def)
  have 1: "2 ^ nat (bitlen p - 1) \<le> p" and 2: "p < 2 ^ nat (bitlen p)"
    using bitlen_bounds [OF assms] by simp_all
  have "(of_int (2 ^ nat (bitlen p - 1)) :: rat) \<le> of_int p" using 1 of_int_le_iff by blast
  then show "(2::rat) powi (bitlen p - 1) \<le> of_int p" using b by (simp add: power_int_def)
  have "(of_int p :: rat) < of_int (2 ^ nat (bitlen p))" using 2 of_int_less_iff by blast
  then show "of_int p < (2::rat) powi (bitlen p)" using b by (simp add: power_int_def)
qed

lemma ilog2_bounds:
  assumes "0 < x"
  shows "2 powi (ilog2 x) \<le> x \<and> x < 2 powi (ilog2 x + 1)"
proof -
  obtain p q where pq: "quotient_of x = (p, q)" by (cases "quotient_of x")
  have q: "0 < q" using pq quotient_of_denom_pos by blast
  have x: "x = of_int p / of_int q" using pq quotient_of_div by blast
  have p: "0 < p" using assms q x by (simp add: zero_less_divide_iff)
  let ?d = "bitlen p - bitlen q"
  have up: "x < 2 powi (?d + 1)"
  proof -
    have "of_int p / of_int q < (2::rat) powi (bitlen p) / of_int q"
      using bitlen_bounds_rat(2) [OF p] q by (simp add: divide_strict_right_mono)
    also have "\<dots> \<le> 2 powi (bitlen p) / 2 powi (bitlen q - 1)"
      using bitlen_bounds_rat(1) [OF q] by (simp add: frac_le)
    also have "\<dots> = 2 powi (?d + 1)"
      by (simp add: power_int_diff power_int_add)
    finally show ?thesis using x by simp
  qed
  have low: "2 powi (?d - 1) \<le> x"
  proof -
    have "(2::rat) powi (?d - 1) = 2 powi (bitlen p - 1) / 2 powi (bitlen q)"
      by (simp add: power_int_diff)
    also have "\<dots> \<le> of_int p / 2 powi (bitlen q)"
      using bitlen_bounds_rat(1) [OF p] by (simp add: divide_right_mono)
    also have "\<dots> \<le> of_int p / of_int q"
      using bitlen_bounds_rat(2) [OF q] p q by (simp add: frac_le)
    finally show ?thesis using x by simp
  qed
  show ?thesis
    using up low pq by (auto simp: ilog2_def Let_def not_le)
qed

lemma round_half_even_nearest: "\<bar>of_int (round_half_even y) - y\<bar> \<le> 1/2"
  unfolding round_half_even_def Let_def by (auto simp: abs_if; linarith)

lemma round_double_nearest:
  assumes "x \<noteq> 0"
  shows "\<exists>n. round_double x = of_int n * 2 powi (max (ilog2 \<bar>x\<bar>) (- 1022) - 52) \<and>
            \<bar>round_double x - x\<bar> \<le> 2 powi (max (ilog2 \<bar>x\<bar>) (- 1022) - 52) / 2"
proof -
  let ?k = "max (ilog2 \<bar>x\<bar>) (- 1022) - 52"
  let ?q = "(2::rat) powi ?k"
  have q: "0 < ?q" by simp
  have r: "round_double x = of_int (round_half_even (x / ?q)) * ?q"
    using assms by (simp add: round_double_def Let_def)
  have "\<bar>of_int (round_half_even (x / ?q)) - x / ?q\<bar> * ?q \<le> 1/2 * ?q"
    using round_half_even_nearest [of "x / ?q"] q by (simp add: mult_right_mono)
  moreover have "\<bar>of_int (round_half_even (x / ?q)) - x / ?q\<bar> * ?q =
                 \<bar>of_int (round_half_even (x / ?q)) * ?q - x\<bar>"
  proof -
    have "\<bar>of_int (round_half_even (x / ?q)) - x / ?q\<bar> * ?q =
          \<bar>(of_int (round_half_even (x / ?q)) - x / ?q) * ?q\<bar>"
      using q by (simp add: abs_mult)
    also have "(of_int (round_half_even (x / ?q)) - x / ?q) * ?q =
               of_int (round_half_even (x / ?q)) * ?q - x"
      using q by (simp add: left_diff_distrib)
    finally show ?thesis .
  qed
  ultimately have "\<bar>round_double x - x\<bar> \<le> ?q / 2" using r by simp
  then show ?thesis using r by blast
qed

text \<open>The literal \<open>0.01\<close>: the double \<open>0x3F847AE147AE147B\<close>, a little above one hundredth.\<close>

lemma float_0_01_value: "float_0_01 = 5764607523034235 / 2 ^ 59"
  by code_simp

lemma float_0_01_pos: "0 < float_0_01"
  by (simp add: float_0_01_value)

text \<open>
  Claim C8. For scores that are doubles between 0 and 1, the diff's \<open>score_delta\<close> is
  the head score minus the base score in double-precision arithmetic, and
  \<open>score_direction\<close> is \<open>unchanged\<close> when the absolute value of that delta is below
  0.01, \<open>improved\<close> when the delta is 0.01 or more, \<open>degraded\<close> when it is -0.01 or
  less.
\<close>

theorem score_delta_direction:
  assumes "is_score (compliance_score (requirements_check b))"
    and "is_score (compliance_score (requirements_check h))"
  shows "score_delta (compute_diff dumps sha now b h rid bc hc files) =
           float_sub (compliance_score (requirements_check h))
                     (compliance_score (requirements_check b)) \<and>
         score_direction (compute_diff dumps sha now b h rid bc hc files) =
           (if \<bar>score_delta (compute_diff dumps sha now b h rid bc hc files)\<bar> < float_0_01
            then ''unchanged''
            else if score_delta (compute_diff dumps sha now b h rid bc hc files) \<ge> float_0_01
            then ''improved''
            else ''degraded'') \<and>
         (score_direction (compute_diff dumps sha now b h rid bc hc files) = ''degraded'' \<longleftrightarrow>
            score_delta (compute_diff dumps sha now b h rid bc hc files) \<le> - float_0_01)"
  using float_0_01_pos
  by (auto simp: compute_diff_def Let_def model_post_init_def)

theorem score_delta_direction_witness:
  "is_score (1 / 2 ^ 62) \<and> is_score float_0_01 \<and>
   is_score (round_double (11/100)) \<and> is_score (round_double (12/100)) \<and>
   score_delta (compute_diff sample_dumps sample_sha256 0 (result_with (1 / 2 ^ 62) [])
       (result_with float_0_01 []) ''repo'' ''abc'' ''def'' None) = float_0_01 \<and>
   score_direction (compute_diff sample_dumps sample_sha256 0 (result_with (1 / 2 ^ 62) [])
       (result_with float_0_01 []) ''repo'' ''abc'' ''def'' None) = ''improved'' \<and>
   score_direction (compute_diff sample_dumps sample_sha256 0 (result_with float_0_01 [])
       (result_with (1 / 2 ^ 62) []) ''repo'' ''abc'' ''def'' None) = ''degraded'' \<and>
   score_delta (compute_diff sample_dumps sample_sha256 0 (result_with (round_double (11/100)) [])
       (result_with (round_double (12/100)) []) ''repo'' ''abc'' ''def'' None) =
     720575940379279 / 2 ^ 56 \<and>
   score_direction (compute_diff sample_dumps sample_sha256 0 (result_with (round_double (11/100)) [])
       (result_with (round_double (12/100)) []) ''repo'' ''abc'' ''def'' None) = ''unchanged''"
proof -
  have s: "is_score (1 / 2 ^ 62)" "is_score float_0_01"
    "is_score (round_double (11/100))" "is_score (round_double (12/100))"
    by code_simp+
  have d: "float_sub float_0_01 (1 / 2 ^ 62) = float_0_01"
    "float_sub (1 / 2 ^ 62) float_0_01 = - float_0_01"
    "float_sub (round_double (12/100)) (round_double (11/100)) = 720575940379279 / 2 ^ 56"
    by code_simp+
  have c: "\<bar>720575940379279 / 2 ^ 56\<bar> < float_0_01"
    by (simp add: float_0_01_value)
  have r: "compliance_score (requirements_check (result_with x gaps)) = x" for x gaps
    by (simp add: result_with_def)
  from score_delta_direction [of "result_with (1 / 2 ^ 62) []" "result_with float_0_01 []"
      sample_dumps sample_sha256 0 "''repo''" "''abc''" "''def''" None]
    score_delta_direction [of "result_with float_0_01 []" "result_with (1 / 2 ^ 62) []"
      sample_dumps sample_sha256 0 "''repo''" "''abc''" "''def''" None]
    score_delta_direction [of "result_with (round_double (11/100)) []"
      "result_with (round_double (12/100)) []"
      sample_dumps sample_sha256 0 "''repo''" "''abc''" "''def''" None]
    s d c float_0_01_pos
  show ?thesis
    by (simp add: r)
qed

subsection \<open>The diff engine: the hash\<close>

text \<open>
  Claim C4. The diff hash is the SHA-256 of the sorted-keys JSON of the schema version,
  the repository, the two commits, the two scores, their delta and the two result
  hashes; each result hash is the SHA-256 of the sorted-keys JSON of the system
  identifier, the verdict, the score, the risk level and the sorted critical gaps.
  Nothing else enters: two calls that differ in the clock's reading or in the changed
  files give the same hash, and so do results that differ in their evaluation time.
\<close>

theorem diff_hash_inputs:
  "diff_hash (compute_diff dumps sha now b h rid bc hc files) =
     sha (dumps [
       (''schema_version'', JString ''1.0.0''),
       (''repo_id'', JString rid),
       (''base_commit'', JString bc),
       (''head_commit'', JString hc),
       (''base_score'', JNumber (compliance_score (requirements_check b))),
       (''head_score'', JNumber (compliance_score (requirements_check h))),
       (''score_delta'', JNumber (float_sub (compliance_score (requirements_check h))
                                            (compliance_score (requirements_check b)))),
       (''base_result_hash'', JString (hash_compliance_result dumps sha b)),
       (''head_result_hash'', JString (hash_compliance_result dumps sha h))]) \<and>
   hash_compliance_result dumps sha b =
     sha (dumps [
       (''system_id'', JString (system_id b)),
       (''compliant'', JBool (compliant b)),
       (''compliance_score'', JNumber (compliance_score (requirements_check b))),
       (''risk_level'', JString (RiskLevel_value (risk_level b))),
       (''critical_gaps'', JArray (map JString (sort (critical_gaps (requirements_check b)))))]) \<and>
   diff_hash (compute_diff dumps sha now' b h rid bc hc files') =
     diff_hash (compute_diff dumps sha now b h rid bc hc files) \<and>
   hash_compliance_result dumps sha (b \<lparr> evaluated_at := t \<rparr>) = hash_compliance_result dumps sha b"
  by (simp add: compute_diff_def Let_def model_post_init_def compute_diff_hash_def
      hash_compliance_result_def)

theorem diff_hash_inputs_witness:
  "diff_hash (compute_diff sample_dumps sample_sha256 1700000999
       (result_with (11/13) [''Provider Obligations not satisfied (Article 16)''])
       (result_with (12/13) []) ''repo'' ''abc'' ''def''
       (Some [\<lparr> cf_path = Some ''app.py'', cf_status = Some ''modified'' \<rparr>])) =
   diff_hash (compute_diff sample_dumps sample_sha256 1700000000
       (result_with (11/13) [''Provider Obligations not satisfied (Article 16)''])
       (result_with (12/13) []) ''repo'' ''abc'' ''def'' None)"
  using diff_hash_inputs [where dumps = sample_dumps and sha = sample_sha256
      and now = 1700000000 and now' = 1700000999
      and b = "result_with (11/13) [''Provider Obligations not satisfied (Article 16)'']"
      and h = "result_with (12/13) []" and rid = "''repo''" and bc = "''abc''"
      and hc = "''def''" and files = None
      and files' = "Some [\<lparr> cf_path = Some ''app.py'', cf_status = Some ''modified'' \<rparr>]"]
  by blast

subsection \<open>Dependency names\<close>

lemma lower_Nil_iff: "lower s = [] \<longleftrightarrow> s = []"
  by (simp add: lower_def)

lemma package_lower_Nil_iff: "package_lower s = [] \<longleftrightarrow> s = []"
  by (simp add: package_lower_def replace_char_def lower_def)

text \<open>
  Claim C6, as the code has it. Two names differ only in letter case or in the choice
  of hyphen, dot or underscore exactly when \<open>package_lower\<close> maps them to the same
  text. For two such names the AI-relatedness flag agrees. The generator's
  deduplication compares the names as the manifest extractor delivers them, in lower
  case, and compares them exactly: of two entries of a manifest, the second is not
  added when the names differ only in letter case, and is added as a component of its
  own when they differ in a separator.
\<close>

theorem is_ai_related_agrees_dedup_exact:
  assumes "package_lower n1 = package_lower n2" and "n1 \<noteq> []"
  shows "is_ai_related n1 = is_ai_related n2 \<and>
         map dep_name (extract_dependencies re_search []
            (extract_from_package_json path [(''dependencies'', [(n1, v1), (n2, v2)])])) =
           (if lower n1 = lower n2 then [lower n1] else [lower n1, lower n2])"
proof -
  from assms have n2: "n2 \<noteq> []"
    using package_lower_Nil_iff by metis
  have "is_ai_related n1 = is_ai_related n2"
    using assms(1) by (simp add: is_ai_related_def)
  moreover have "map dep_name (extract_dependencies re_search []
            (extract_from_package_json path [(''dependencies'', [(n1, v1), (n2, v2)])])) =
           (if lower n1 = lower n2 then [lower n1] else [lower n1, lower n2])"
    using assms(2) n2
    by (simp add: extract_dependencies_def extract_from_package_json_def config_step_def
        Let_def lower_Nil_iff)
  ultimately show ?thesis by simp
qed

theorem is_ai_related_agrees_witness:
  "package_lower ''PyTorch'' = package_lower ''pytorch'' \<and>
   is_ai_related ''PyTorch'' \<and> is_ai_related ''pytorch'' \<and>
   map dep_name (extract_dependencies no_import []
      (extract_from_package_json ''package.json''
         [(''dependencies'', [(''PyTorch'', Some ''2.1.0''), (''pytorch'', Some ''2.1.0'')])])) =
     [''pytorch'']"
proof -
  have h: "package_lower ''PyTorch'' = package_lower ''pytorch''" by code_simp
  have ne: "''PyTorch'' \<noteq> []" by simp
  have l: "lower ''PyTorch'' = lower ''pytorch''" "lower ''PyTorch'' = ''pytorch''" by code_simp+
  have a: "is_ai_related ''pytorch''" by code_simp
  from is_ai_related_agrees_dedup_exact [OF h ne, of no_import "''package.json''"
      "Some ''2.1.0''" "Some ''2.1.0''"] h l a
  show ?thesis by simp
qed

text \<open>
  Claim C6 as stated fails for the separators: \<open>scikit-learn\<close> and \<open>scikit_learn\<close>
  differ only in the separator, and the generator keeps both as components.
\<close>

theorem separator_dedup_counterexample:
  "package_lower ''scikit-learn'' = package_lower ''scikit_learn'' \<and>
   map dep_name (extract_dependencies no_import []
      (extract_from_package_json ''package.json''
         [(''dependencies'', [(''scikit-learn'', Some ''1.4.0''), (''scikit_learn'', Some ''1.4.0'')])])) =
     [''scikit-learn'', ''scikit_learn'']"
  by code_simp

subsection \<open>The policy engine\<close>

lemma not_ai_system:
  assumes "models b = []" "datasets b = []" "\<forall>d \<in> set (dependencies b). \<not> is_ai_related_flag d"
  shows "\<not> is_ai_system b"
proof -
  from assms(3) have "filter is_ai_related_flag (dependencies b) = []"
    by (simp add: filter_empty_conv)
  with assms(1,2) show ?thesis
    by (simp add: is_ai_system_def)
qed

text \<open>
  Claim C3. For a BOM with no model, no dataset and no AI-related dependency,
  \<open>evaluate_compliance\<close> returns the result of \<open>create_non_ai_compliance_result\<close>,
  whatever the code base, the documentation passed in and the recommendation
  generator are: no validator's result enters it. The result is compliant, its score
  is 1, its risk level is minimal, it has no critical gap, and its one recommendation
  says that no action is required because this is not an AI system subject to the Act.
\<close>

theorem non_ai_short_circuit:
  assumes "models b = []" "datasets b = []" "\<forall>d \<in> set (dependencies b). \<not> is_ai_related_flag d"
  shows "\<exists>r. evaluate_compliance now gen_recs cb b doc sid = Inr r \<and>
           r = create_non_ai_compliance_result now b (case sid of None \<Rightarrow> spdx_id b | Some s \<Rightarrow> s) \<and>
           compliant r = True \<and>
           compliance_score (requirements_check r) = 1 \<and>
           risk_level r = MINIMAL \<and>
           critical_gaps (requirements_check r) = [] \<and>
           recommendations (requirements_check r) =
             [''No action required - this is not an AI system subject to EU AI Act'']"
proof -
  have "\<not> is_ai_system b" using assms by (rule not_ai_system)
  then have "evaluate_compliance now gen_recs cb b doc sid =
      Inr (create_non_ai_compliance_result now b (case sid of None \<Rightarrow> spdx_id b | Some s \<Rightarrow> s))"
    by (simp add: evaluate_compliance_def)
  then show ?thesis
    by (simp add: create_non_ai_compliance_result_def)
qed

theorem non_ai_short_circuit_witness:
  "models plain_bom = [] \<and> datasets plain_bom = [] \<and> dependencies plain_bom = [plain_dep] \<and>
   (\<exists>r. evaluate_compliance 0 no_recs None plain_bom None None = Inr r \<and>
        compliant r = True \<and>
        compliance_score (requirements_check r) = 1 \<and>
        risk_level r = MINIMAL \<and>
        recommendations (requirements_check r) =
          [''No action required - this is not an AI system subject to EU AI Act''])"
proof -
  have m: "models plain_bom = []" and d: "datasets plain_bom = []"
    and deps: "dependencies plain_bom = [plain_dep]"
    by (simp_all add: plain_bom_def)
  have f: "\<forall>d \<in> set (dependencies plain_bom). \<not> is_ai_related_flag d"
    by (simp add: plain_bom_def plain_dep_def)
  from non_ai_short_circuit [OF m d f, of 0 no_recs None None None] m d deps
  show ?thesis by blast
qed

lemma conformity_never:
  "conformity_assessment_completed (ProviderObligationsValidator_validate b rl) = False"
  by (simp add: ProviderObligationsValidator_validate_def)

lemma gpai_detected:
  "gpai_models_detected (GPAIValidator_validate b) = detect_gpai_models b"
  by (simp add: GPAIValidator_validate_def Let_def)



text \<open>
  Every result that the engine returns for an AI system is assembled from validator
  results, among them those of the provider obligations validator and of the
  general-purpose model validator on this BOM.
\<close>

lemma evaluate_compliance_assembles:
  assumes "is_ai_system b"
    and "evaluate_compliance now gen_recs cb b doc sid = Inr r"
  shows "\<exists>sid' td annex a8 a9 a10 base a12 acc rob cyb a61 a72.
           r = assemble_result now gen_recs b sid' td annex a8 a9 a10 base a12 acc rob cyb
                 (ProviderObligationsValidator_validate b (doc_risk_level td)) a61 a72
                 (GPAIValidator_validate b)"
  using assms
  by (simp add: evaluate_compliance_def Let_def split: sum.splits) blast

lemma assemble_compliant_iff:
  "compliant (assemble_result now gen_recs b sid td annex a8 a9 a10 base a12 acc rob cyb a16 a61 a72 g)
     \<longleftrightarrow>
     compliance_score (requirements_check
        (assemble_result now gen_recs b sid td annex a8 a9 a10 base a12 acc rob cyb a16 a61 a72 g))
       \<ge> 85/100 \<and>
     critical_gaps (requirements_check
        (assemble_result now gen_recs b sid td annex a8 a9 a10 base a12 acc rob cyb a16 a61 a72 g)) = [] \<and>
     (risk_level (assemble_result now gen_recs b sid td annex a8 a9 a10 base a12 acc rob cyb a16 a61 a72 g) = HIGH \<longrightarrow>
        article_9_compliant (requirements_check
          (assemble_result now gen_recs b sid td annex a8 a9 a10 base a12 acc rob cyb a16 a61 a72 g)) \<and>
        article_10_compliant (requirements_check
          (assemble_result now gen_recs b sid td annex a8 a9 a10 base a12 acc rob cyb a16 a61 a72 g)) \<and>
        article_12_compliant (requirements_check
          (assemble_result now gen_recs b sid td annex a8 a9 a10 base a12 acc rob cyb a16 a61 a72 g)) \<and>
        article_11_compliant (requirements_check
          (assemble_result now gen_recs b sid td annex a8 a9 a10 base a12 acc rob cyb a16 a61 a72 g)) \<and>
        article_14_compliant (requirements_check
          (assemble_result now gen_recs b sid td annex a8 a9 a10 base a12 acc rob cyb a16 a61 a72 g)))"
proof (cases "doc_risk_level td = HIGH")
  case True
  then show ?thesis
    by (simp add: assemble_result_def Let_def AnnexIVRequirements_defaults_def
        cong: if_cong split del: if_split)
next
  case False
  then show ?thesis
    by (simp add: assemble_result_def Let_def AnnexIVRequirements_defaults_def
        cong: if_cong split del: if_split)
qed

lemma assemble_not_compliant:
  assumes "\<not> conformity_assessment_completed a16"
  shows "\<not> compliant (assemble_result now gen_recs b sid td annex a8 a9 a10 base a12 acc rob cyb a16 a61 a72 g) \<and>
     \<not> article_16_compliant (requirements_check
        (assemble_result now gen_recs b sid td annex a8 a9 a10 base a12 acc rob cyb a16 a61 a72 g)) \<and>
     ''Provider Obligations not satisfied (Article 16)'' \<in> set (critical_gaps (requirements_check
        (assemble_result now gen_recs b sid td annex a8 a9 a10 base a12 acc rob cyb a16 a61 a72 g)))"
  using assms
  by (simp add: assemble_result_def Let_def AnnexIVRequirements_defaults_def
        cong: if_cong split del: if_split)

lemma assemble_score:
  "compliance_score (requirements_check
        (assemble_result now gen_recs b sid td annex a8 a9 a10 base a12 acc rob cyb a16 a61 a72 g)) =
     of_nat (articles_compliant_count (requirements_check
        (assemble_result now gen_recs b sid td annex a8 a9 a10 base a12 acc rob cyb a16 a61 a72 g)) +
             (if gpai_models_detected g \<noteq> [] \<and> compliant_as_deployer g then 1 else 0)) /
     of_nat (if gpai_models_detected g \<noteq> [] then 14 else 13) \<and>
   total_articles_checked (requirements_check
        (assemble_result now gen_recs b sid td annex a8 a9 a10 base a12 acc rob cyb a16 a61 a72 g)) = 13 \<and>
   gpai (requirements_check
        (assemble_result now gen_recs b sid td annex a8 a9 a10 base a12 acc rob cyb a16 a61 a72 g)) = Some g"
proof (cases "gpai_models_detected g = []")
  case True
  then show ?thesis
    by (simp add: assemble_result_def Let_def AnnexIVRequirements_defaults_def
        total_articles_checked_def articles_compliant_count_def
        cong: if_cong split del: if_split)
next
  case False
  then show ?thesis
    by (simp add: assemble_result_def Let_def AnnexIVRequirements_defaults_def
        total_articles_checked_def articles_compliant_count_def
        cong: if_cong split del: if_split)
qed

text \<open>
  Claim C1. For a BOM classified as an AI system, the result that
  \<open>evaluate_compliance\<close> returns is compliant exactly when its score is at least
  0.85, its list of critical gaps is empty and, when its risk level is high, Articles
  9, 10, 12, 11 and 14 are each compliant.
\<close>

theorem overall_compliant_iff:
  assumes "is_ai_system b"
    and "evaluate_compliance now gen_recs cb b doc sid = Inr r"
  shows "compliant r \<longleftrightarrow>
           compliance_score (requirements_check r) \<ge> 85/100 \<and>
           critical_gaps (requirements_check r) = [] \<and>
           (risk_level r = HIGH \<longrightarrow>
              article_9_compliant (requirements_check r) \<and>
              article_10_compliant (requirements_check r) \<and>
              article_12_compliant (requirements_check r) \<and>
              article_11_compliant (requirements_check r) \<and>
              article_14_compliant (requirements_check r))"
proof -
  from evaluate_compliance_assembles [OF assms]
  obtain sid' td annex a8 a9 a10 base a12 acc rob cyb a61 a72 where
    r: "r = assemble_result now gen_recs b sid' td annex a8 a9 a10 base a12 acc rob cyb
              (ProviderObligationsValidator_validate b (doc_risk_level td)) a61 a72
              (GPAIValidator_validate b)"
    by blast
  show ?thesis
    unfolding r by (rule assemble_compliant_iff)
qed

theorem overall_compliant_iff_witness:
  "is_ai_system example_bom \<and>
   (\<exists>r. evaluate_compliance 0 no_recs None example_bom None None = Inr r \<and>
        risk_level r = HIGH \<and>
        (compliant r \<longleftrightarrow>
           compliance_score (requirements_check r) \<ge> 85/100 \<and>
           critical_gaps (requirements_check r) = [] \<and>
           (risk_level r = HIGH \<longrightarrow>
              article_9_compliant (requirements_check r) \<and>
              article_10_compliant (requirements_check r) \<and>
              article_12_compliant (requirements_check r) \<and>
              article_11_compliant (requirements_check r) \<and>
              article_14_compliant (requirements_check r))))"
proof -
  have ai: "is_ai_system example_bom" by code_simp
  have "\<not> isl (evaluate_compliance 0 no_recs None example_bom None None)" by code_simp
  then obtain r where r: "evaluate_compliance 0 no_recs None example_bom None None = Inr r"
    by (cases "evaluate_compliance 0 no_recs None example_bom None None") auto
  have "risk_level (projr (evaluate_compliance 0 no_recs None example_bom None None)) = HIGH"
    by code_simp
  with r have h: "risk_level r = HIGH" by simp
  from overall_compliant_iff [OF ai r] ai r h show ?thesis by blast
qed

text \<open>
  Claim C2. For a BOM classified as an AI system, the score stored in the returned
  requirements record is the number of compliant articles over the number of articles
  checked. The number checked is 13 when no general-purpose model is detected; when
  one is, it is 14, and the numerator counts one more only if the deployer
  obligations are compliant.
\<close>

theorem compliance_score_ratio:
  assumes "is_ai_system b"
    and "evaluate_compliance now gen_recs cb b doc sid = Inr r"
  shows "\<exists>g. gpai (requirements_check r) = Some g \<and>
           gpai_models_detected g = detect_gpai_models b \<and>
           total_articles_checked (requirements_check r) = 13 \<and>
           compliance_score (requirements_check r) =
             of_nat (articles_compliant_count (requirements_check r) +
                     (if gpai_models_detected g \<noteq> [] \<and> compliant_as_deployer g then 1 else 0)) /
             of_nat (if gpai_models_detected g \<noteq> [] then 14 else 13)"
proof -
  from evaluate_compliance_assembles [OF assms]
  obtain sid' td annex a8 a9 a10 base a12 acc rob cyb a61 a72 where
    r: "r = assemble_result now gen_recs b sid' td annex a8 a9 a10 base a12 acc rob cyb
              (ProviderObligationsValidator_validate b (doc_risk_level td)) a61 a72
              (GPAIValidator_validate b)"
    by blast
  from assemble_score [of now gen_recs b sid' td annex a8 a9 a10 base a12 acc rob cyb
      "ProviderObligationsValidator_validate b (doc_risk_level td)" a61 a72
      "GPAIValidator_validate b"]
  show ?thesis
    unfolding r using gpai_detected [of b] by blast
qed

theorem compliance_score_ratio_witness:
  "(\<exists>r. evaluate_compliance 0 no_recs None example_bom None None = Inr r \<and>
        detect_gpai_models example_bom \<noteq> [] \<and>
        articles_compliant_count (requirements_check r) = 1 \<and>
        compliance_score (requirements_check r) = 1/14) \<and>
   (\<exists>r. evaluate_compliance 0 no_recs None custom_bom None None = Inr r \<and>
        detect_gpai_models custom_bom = [] \<and>
        articles_compliant_count (requirements_check r) = 3 \<and>
        compliance_score (requirements_check r) = 3/13)"
proof -
  have ai: "is_ai_system example_bom" "is_ai_system custom_bom" by code_simp+
  have "\<not> isl (evaluate_compliance 0 no_recs None example_bom None None)"
    and "\<not> isl (evaluate_compliance 0 no_recs None custom_bom None None)" by code_simp+
  then obtain r1 r2 where r: "evaluate_compliance 0 no_recs None example_bom None None = Inr r1"
      "evaluate_compliance 0 no_recs None custom_bom None None = Inr r2"
    by (metis sum.collapse(2))
  have d: "detect_gpai_models example_bom \<noteq> []" "detect_gpai_models custom_bom = []"
    by code_simp+
  have "articles_compliant_count (requirements_check
          (projr (evaluate_compliance 0 no_recs None example_bom None None))) = 1"
    and "articles_compliant_count (requirements_check
          (projr (evaluate_compliance 0 no_recs None custom_bom None None))) = 3"
    and "\<not> compliant_as_deployer (the (gpai (requirements_check
          (projr (evaluate_compliance 0 no_recs None example_bom None None)))))"
    by code_simp+
  with r have c: "articles_compliant_count (requirements_check r1) = 1"
    "articles_compliant_count (requirements_check r2) = 3"
    "\<not> compliant_as_deployer (the (gpai (requirements_check r1)))" by simp_all
  from compliance_score_ratio [OF ai(1) r(1)] d(1) c(1,3)
  have s1: "compliance_score (requirements_check r1) = 1/14" by auto
  from compliance_score_ratio [OF ai(2) r(2)] d(2) c(2)
  have s2: "compliance_score (requirements_check r2) = 3/13" by auto
  from r d c s1 s2 show ?thesis by blast
qed

text \<open>
  Claim C10, as the code has it. For a BOM classified as an AI system, every result
  that \<open>evaluate_compliance\<close> returns is not compliant: the provider obligations
  validator never reports a completed conformity assessment, so Article 16 is not
  compliant and the Article 16 gap is among the critical gaps.
\<close>

theorem ai_system_never_compliant:
  assumes "is_ai_system b"
    and "evaluate_compliance now gen_recs cb b doc sid = Inr r"
  shows "\<not> compliant r \<and>
         \<not> article_16_compliant (requirements_check r) \<and>
         ''Provider Obligations not satisfied (Article 16)'' \<in>
            set (critical_gaps (requirements_check r)) \<and>
         critical_gaps (requirements_check r) \<noteq> []"
proof -
  from evaluate_compliance_assembles [OF assms]
  obtain sid' td annex a8 a9 a10 base a12 acc rob cyb a61 a72 where
    r: "r = assemble_result now gen_recs b sid' td annex a8 a9 a10 base a12 acc rob cyb
              (ProviderObligationsValidator_validate b (doc_risk_level td)) a61 a72
              (GPAIValidator_validate b)"
    by blast
  have "\<not> compliant r \<and>
        \<not> article_16_compliant (requirements_check r) \<and>
        ''Provider Obligations not satisfied (Article 16)'' \<in>
           set (critical_gaps (requirements_check r))"
    unfolding r by (rule assemble_not_compliant) (simp add: conformity_never)
  then show ?thesis by auto
qed

theorem ai_system_never_compliant_witness:
  "is_ai_system example_bom \<and>
   (\<exists>r. evaluate_compliance 0 no_recs None example_bom None None = Inr r \<and>
        \<not> compliant r \<and>
        \<not> article_16_compliant (requirements_check r) \<and>
        ''Provider Obligations not satisfied (Article 16)'' \<in>
           set (critical_gaps (requirements_check r)))"
proof -
  have ai: "is_ai_system example_bom" by code_simp
  have "\<not> isl (evaluate_compliance 0 no_recs None example_bom None None)" by code_simp
  then obtain r where r: "evaluate_compliance 0 no_recs None example_bom None None = Inr r"
    by (metis sum.collapse(2))
  from ai_system_never_compliant [OF ai r] ai r show ?thesis by blast
qed

text \<open>
  Claim C10 as stated says that a result is returned for every such BOM. The chatbot
  BOM whose metadata give the governance policies as one string is an AI system, and
  \<open>evaluate_compliance\<close> returns no result for it: the data governance record
  declares a list of strings, and its construction raises.
\<close>

theorem policies_as_text_counterexample:
  "is_ai_system policies_as_text_bom \<and>
   evaluate_compliance 0 no_recs None policies_as_text_bom None None =
     Inl (ValidationError [''data_governance_policies'']) \<and>
   \<not> (\<exists>r. evaluate_compliance 0 no_recs None policies_as_text_bom None None = Inr r \<and>
           \<not> compliant r)"
proof -
  have "is_ai_system policies_as_text_bom" by code_simp
  moreover have "evaluate_compliance 0 no_recs None policies_as_text_bom None None =
     Inl (ValidationError [''data_governance_policies''])"
    by code_simp
  ultimately show ?thesis by auto
qed

text \<open>
  The other exceptions, each on the chatbot BOM with one entry in its metadata: a log
  retention of three months, which the logging record refuses (it declares at least
  six), and a retention that is no integer.
\<close>

lemma short_retention_raises:
  "evaluate_compliance 0 no_recs None short_retention_bom None None =
     Inl (ValidationError [''retention_period_months''])"
  by code_simp

lemma retention_as_text_raises:
  "evaluate_compliance 0 no_recs None
     (example_bom \<lparr> metadata := \<lparr> md_items = [(''log_retention_months'', str_value ''abc'')],
                                 md_str = ''{'log_retention_months': 'abc'}'' \<rparr> \<rparr>) None None =
     Inl (ValidationError [''retention_period_months''])"
  by code_simp

end
